theory Spec2Isabelle
  imports Main "HOL-Library.AList"
begin

section \<open>JavaScript values and objects used by the server\<close>

text \<open>
  The server (the July 2025 revision of \<^verbatim>\<open>server.js\<close>) keeps its registry in the
  global \<^verbatim>\<open>cD\<close>: six plain objects used as maps and two counters. The values it stores
  in the maps are strings, \<^verbatim>\<open>null\<close> or \<^verbatim>\<open>undefined\<close>: the hints of the handshake
  (\<^verbatim>\<open>mode\<close>, \<^verbatim>\<open>currentName\<close>, \<^verbatim>\<open>nickName\<close>, \<^verbatim>\<open>teamName\<close>), the room name and the
  socket ids. Numbers, booleans, arrays and objects in these fields are outside the
  model, and so are the members every object inherits from \<^verbatim>\<open>Object.prototype\<close>
  (a room called \<^verbatim>\<open>constructor\<close>).
\<close>

datatype jsval = Undefined | Null | Str string

text \<open>Truthiness, as \<^verbatim>\<open>if (v)\<close> and \<^verbatim>\<open>v && ...\<close> test it.\<close>

fun truthy :: "jsval \<Rightarrow> bool" where
  "truthy Undefined = False"
| "truthy Null = False"
| "truthy (Str s) = (s \<noteq> [])"

text \<open>String conversion, as a property key and in string concatenation.\<close>

fun to_str :: "jsval \<Rightarrow> string" where
  "to_str Undefined = ''undefined''"
| "to_str Null = ''null''"
| "to_str (Str s) = s"

text \<open>Loose equality \<^verbatim>\<open>==\<close> on these values.\<close>

fun js_eq :: "jsval \<Rightarrow> jsval \<Rightarrow> bool" where
  "js_eq (Str a) (Str b) = (a = b)"
| "js_eq (Str a) Undefined = False"
| "js_eq (Str a) Null = False"
| "js_eq Undefined (Str b) = False"
| "js_eq Null (Str b) = False"
| "js_eq Undefined Undefined = True"
| "js_eq Undefined Null = True"
| "js_eq Null Undefined = True"
| "js_eq Null Null = True"

text \<open>\<^verbatim>\<open>setDefault(theValue, theDefault)\<close>: the default if the value is undefined.\<close>

definition setDefault :: "jsval \<Rightarrow> jsval \<Rightarrow> jsval" where
  "setDefault theValue theDefault = (if theValue \<noteq> Undefined then theValue else theDefault)"

text \<open>
  A plain object used as a map: its own properties in insertion order. Reading a missing
  key gives \<^verbatim>\<open>undefined\<close>; an assignment replaces the value in place or appends the
  key; \<^verbatim>\<open>delete\<close> removes the key if it is there. (JavaScript enumerates keys that
  look like array indices before the others; socket ids are not of that form.)
\<close>

type_synonym obj = "(string \<times> jsval) list"

definition obj_get :: "obj \<Rightarrow> string \<Rightarrow> jsval" where
  "obj_get m k = (case map_of m k of None \<Rightarrow> Undefined | Some v \<Rightarrow> v)"

definition obj_set :: "obj \<Rightarrow> string \<Rightarrow> jsval \<Rightarrow> obj" where
  "obj_set m k v = AList.update k v m"

definition obj_delete :: "obj \<Rightarrow> string \<Rightarrow> obj" where
  "obj_delete m k = AList.delete k m"

definition obj_keys :: "obj \<Rightarrow> string list" where
  "obj_keys m = map fst m"

definition obj_values :: "obj \<Rightarrow> jsval list" where
  "obj_values m = map snd m"

text \<open>
  Decimal digits of a counter, as \<^verbatim>\<open>'u' + cD.nameIndex\<close> prints them. The counters are
  natural numbers here; the doubles of JavaScript count exactly up to \<open>2^53\<close>.
\<close>

definition digit_char :: "nat \<Rightarrow> char" where
  "digit_char d = ''0123456789'' ! d"

fun show_nat :: "nat \<Rightarrow> string" where
  "show_nat n = (if n < 10 then [digit_char n] else show_nat (n div 10) @ [digit_char (n mod 10)])"

declare show_nat.simps [simp del]

section \<open>The registry \<^verbatim>\<open>cD\<close>\<close>

text \<open>
  \<^verbatim>\<open>userName\<close>, \<^verbatim>\<open>nickName\<close>, \<^verbatim>\<open>teamName\<close> and \<^verbatim>\<open>room\<close> are keyed by socket id,
  \<^verbatim>\<open>id\<close> (here \<open>idm\<close>) by user name and \<^verbatim>\<open>hostID\<close> by room name.
\<close>

record clientData =
  connectionIndex :: nat
  nameIndex :: nat
  userName :: obj
  nickName :: obj
  teamName :: obj
  idm :: obj
  room :: obj
  hostID :: obj

definition cD_init :: clientData where
  "cD_init = \<lparr>connectionIndex = 0, nameIndex = 0, userName = [], nickName = [],
              teamName = [], idm = [], room = [], hostID = []\<rparr>"

text \<open>\<^verbatim>\<open>removeUserFromMaps(clientID)\<close>, statement by statement.\<close>

definition removeUserFromMaps :: "clientData \<Rightarrow> string \<Rightarrow> clientData" where
  "removeUserFromMaps s clientID =
    (let hostID_v = obj_get (hostID s) (to_str (obj_get (room s) clientID));
         s1 = (if js_eq hostID_v (Str clientID)
               then s\<lparr>hostID := obj_delete (hostID s) (to_str (obj_get (room s) clientID))\<rparr>
               else s);
         s2 = s1\<lparr>idm := obj_delete (idm s1) (to_str (obj_get (userName s1) clientID))\<rparr>;
         s3 = s2\<lparr>userName := obj_delete (userName s2) clientID\<rparr>;
         s4 = (if truthy (obj_get (nickName s3) clientID)
               then s3\<lparr>nickName := obj_delete (nickName s3) clientID\<rparr> else s3);
         s5 = (if truthy (obj_get (teamName s4) clientID)
               then s4\<lparr>teamName := obj_delete (teamName s4) clientID\<rparr> else s4)
     in s5\<lparr>room := obj_delete (room s5) clientID\<rparr>)"

text \<open>
  \<^verbatim>\<open>setDisplayName(clientID, mode)\<close>. With a nickname and a mode that is neither
  \<^verbatim>\<open>'comma'\<close> nor \<^verbatim>\<open>'prens'\<close> the variable is never assigned and the result is
  \<^verbatim>\<open>undefined\<close>.
\<close>

definition setDisplayName :: "clientData \<Rightarrow> string \<Rightarrow> string \<Rightarrow> jsval" where
  "setDisplayName s clientID mode =
    (let hostID_v = obj_get (hostID s) (to_str (obj_get (room s) clientID));
         userName_v = (if js_eq hostID_v (Str clientID) then Str ''host''
                       else obj_get (userName s) clientID)
     in if truthy (obj_get (nickName s) clientID) then
          (let teamString = (if truthy (obj_get (teamName s) clientID)
                             then ''.'' @ to_str (obj_get (teamName s) clientID) else '''')
           in if mode = ''comma'' then
                Str (to_str (obj_get (nickName s) clientID) @ teamString @ '', '' @ to_str userName_v)
              else if mode = ''prens'' then
                Str (to_str (obj_get (nickName s) clientID) @ teamString @ '' ('' @ to_str userName_v @ '')'')
              else Undefined)
        else userName_v)"

text \<open>\<^verbatim>\<open>nameInUse(nameToCheck, nameMap)\<close>: some value of the map is loosely equal to the name.\<close>

fun nameInUse :: "jsval \<Rightarrow> obj \<Rightarrow> bool" where
  "nameInUse nameToCheck [] = False"
| "nameInUse nameToCheck (p # nameMap) =
     (if js_eq (snd p) nameToCheck then True else nameInUse nameToCheck nameMap)"

text \<open>
  The do-while loop of the connection handler in mode \<^verbatim>\<open>'normal'\<close>: increment
  \<^verbatim>\<open>cD.nameIndex\<close>, build \<^verbatim>\<open>'u' + cD.nameIndex\<close>, repeat while that name is in use.
  The function returns the counter the loop ends with.
\<close>

function mintName :: "nat \<Rightarrow> obj \<Rightarrow> nat" where
  "mintName nameIndex_v nameMap =
     (let n = nameIndex_v + 1
      in if nameInUse (Str (''u'' @ show_nat n)) nameMap then mintName n nameMap else n)"
  by pat_completeness auto

text \<open>
  The number a decimal string denotes, and the largest number that stands behind the
  first character of a stored name: the loop cannot run past it.
\<close>

definition digit_val :: "char \<Rightarrow> nat" where
  "digit_val c = of_char c - 48"

definition read_nat :: "string \<Rightarrow> nat" where
  "read_nat cs = foldl (\<lambda>a c. 10 * a + digit_val c) 0 cs"

fun nameNumberBound :: "obj \<Rightarrow> nat" where
  "nameNumberBound [] = 0"
| "nameNumberBound (p # nameMap) =
     max (case snd p of Str n \<Rightarrow> read_nat (drop 1 n) | _ \<Rightarrow> 0) (nameNumberBound nameMap)"

lemma digit_val_char: "d < 10 \<Longrightarrow> digit_val (digit_char d) = d"
proof -
  assume "d < 10"
  then have "d = 0 \<or> d = 1 \<or> d = 2 \<or> d = 3 \<or> d = 4 \<or> d = 5 \<or> d = 6 \<or> d = 7 \<or> d = 8 \<or> d = 9"
    by arith
  then show ?thesis
    by (auto simp: digit_val_def digit_char_def)
qed

lemma read_nat_show_nat: "read_nat (show_nat n) = n"
proof (induction n rule: show_nat.induct)
  case (1 n)
  show ?case
  proof (cases "n < 10")
    case True
    then show ?thesis
      by (simp add: show_nat.simps[of n] read_nat_def digit_val_char)
  next
    case False
    with 1 have "read_nat (show_nat (n div 10)) = n div 10"
      by simp
    with False show ?thesis
      by (simp add: show_nat.simps[of n] read_nat_def digit_val_char)
  qed
qed

lemma show_nat_inj: "show_nat a = show_nat b \<Longrightarrow> a = b"
  by (metis read_nat_show_nat)

lemma show_nat_nonempty: "show_nat n \<noteq> []"
  by (simp add: show_nat.simps[of n])

lemma nameInUse_iff: "nameInUse v m \<longleftrightarrow> (\<exists>p \<in> set m. js_eq (snd p) v)"
  by (induction m) auto

lemma nameInUse_bound:
  "nameInUse (Str (''u'' @ show_nat n)) m \<Longrightarrow> n \<le> nameNumberBound m"
proof (induction m)
  case Nil
  then show ?case by simp
next
  case (Cons p m)
  show ?case
  proof (cases "js_eq (snd p) (Str (''u'' @ show_nat n))")
    case True
    then have "snd p = Str (''u'' @ show_nat n)"
      by (cases "snd p") auto
    then show ?thesis
      by (simp add: read_nat_show_nat)
  next
    case False
    with Cons show ?thesis
      by (auto simp: max.coboundedI2)
  qed
qed

termination mintName
proof (relation "measure (\<lambda>(i, m). nameNumberBound m - i)")
  show "wf (measure (\<lambda>(i, m). nameNumberBound m - i))"
    by simp
next
  fix nameIndex_v :: nat and nameMap :: obj and x :: nat
  assume x: "x = nameIndex_v + 1"
    and used: "nameInUse (Str (''u'' @ show_nat x)) nameMap"
  from used have "x \<le> nameNumberBound nameMap"
    by (rule nameInUse_bound)
  with x show "((x, nameMap), (nameIndex_v, nameMap)) \<in> measure (\<lambda>(i, m). nameNumberBound m - i)"
    by simp
qed

declare mintName.simps [simp del]

section \<open>Messages, transport actions and the per-socket closure\<close>

text \<open>
  Payloads of the relayed events are arbitrary JSON-like values. \<^verbatim>\<open>msg.to\<close> on
  \<^verbatim>\<open>undefined\<close> or \<^verbatim>\<open>null\<close> throws a \<^verbatim>\<open>TypeError\<close>; on a string or a boolean it is
  \<^verbatim>\<open>undefined\<close>.
\<close>

datatype payload = PUndefined | PNull | PBool bool | PStr string | PObj "(string \<times> payload) list"

datatype error = TypeError

fun pv :: "jsval \<Rightarrow> payload" where
  "pv Undefined = PUndefined"
| "pv Null = PNull"
| "pv (Str s) = PStr s"

fun p_to_str :: "payload \<Rightarrow> string" where
  "p_to_str PUndefined = ''undefined''"
| "p_to_str PNull = ''null''"
| "p_to_str (PBool b) = (if b then ''true'' else ''false'')"
| "p_to_str (PStr s) = s"
| "p_to_str (PObj kvs) = ''[object Object]''"

fun get_prop :: "payload \<Rightarrow> string \<Rightarrow> error + payload" where
  "get_prop PUndefined k = Inl TypeError"
| "get_prop PNull k = Inl TypeError"
| "get_prop (PObj kvs) k = Inr (case map_of kvs k of None \<Rightarrow> PUndefined | Some v \<Rightarrow> v)"
| "get_prop (PBool b) k = Inr PUndefined"
| "get_prop (PStr s) k = Inr PUndefined"

text \<open>
  What a handler asks of the transport: \<^verbatim>\<open>io.to(x).emit(ev, data)\<close> (\<open>x\<close> a socket id
  or a room name; nobody receives it when \<open>x\<close> names neither),
  \<^verbatim>\<open>socket.emit(ev, data)\<close>, \<^verbatim>\<open>socket.to(room).emit(ev, data)\<close> (the room without the
  sender), \<^verbatim>\<open>socket.join(room)\<close> and \<^verbatim>\<open>socket.disconnect()\<close>.
  \<^verbatim>\<open>console.log\<close> is not modelled.
\<close>

datatype target = ToId payload | ToSocket string | ToRoomExceptSender jsval string

datatype action =
    Emit target string payload
  | Join string jsval
  | SocketDisconnect string

text \<open>
  The variables of the closure the connection handler creates for each socket:
  \<^verbatim>\<open>idleTime_m\<close> in minutes, and the two timers. A pending timer is \<open>Some t_min\<close>,
  the \<^verbatim>\<open>t_min\<close> its \<^verbatim>\<open>setTimer\<close> call was given: the warning fires after
  \<^verbatim>\<open>(t_min/2.0) * 60 * 1000\<close> ms, the logoff after \<^verbatim>\<open>t_min * 60 * 1000\<close> ms. The minutes
  the server uses (40, 5 and their sums) are whole numbers.
\<close>

record sock =
  idleTime_m :: nat
  warningTimer :: "nat option"
  logoffTimer :: "nat option"

definition sock_new :: sock where
  "sock_new = \<lparr>idleTime_m = 0, warningTimer = None, logoffTimer = None\<rparr>"

record server =
  cD :: clientData
  socks :: "(string \<times> sock) list"

definition server_init :: server where
  "server_init = \<lparr>cD = cD_init, socks = []\<rparr>"

definition sock_of :: "server \<Rightarrow> string \<Rightarrow> sock" where
  "sock_of s socket_id = (case map_of (socks s) socket_id of None \<Rightarrow> sock_new | Some k \<Rightarrow> k)"

definition sock_put :: "server \<Rightarrow> string \<Rightarrow> sock \<Rightarrow> server" where
  "sock_put s socket_id k = s\<lparr>socks := AList.update socket_id k (socks s)\<rparr>"

text \<open>
  The result of a handler: the state it leaves, the transport actions in order, and the
  exception if it threw (the state is then the one at the throw).
\<close>

type_synonym result = "server \<times> action list \<times> error option"

text \<open>
  \<^verbatim>\<open>setTimer(reset, t_min=40.0)\<close>: \<^verbatim>\<open>clearTimeout\<close> drops a pending timer,
  \<^verbatim>\<open>setTimeout\<close> schedules one.
\<close>

definition setTimer :: "sock \<Rightarrow> string \<Rightarrow> nat \<Rightarrow> sock" where
  "setTimer k reset t_min =
    (let k1 = (if reset = ''initialize'' then k\<lparr>idleTime_m := t_min\<rparr>
               else if reset = ''restart'' then
                 k\<lparr>warningTimer := None, logoffTimer := None, idleTime_m := t_min\<rparr>
               else if reset = ''extend'' then
                 k\<lparr>warningTimer := None, logoffTimer := None\<rparr>
               else k);
         k2 = (if reset \<noteq> ''extend'' then k1\<lparr>warningTimer := Some t_min\<rparr> else k1)
     in k2\<lparr>logoffTimer := Some t_min\<rparr>)"

text \<open>\<^verbatim>\<open>x.toFixed(1)\<close> for a whole number of minutes and for half of one.\<close>

definition toFixed1 :: "nat \<Rightarrow> string" where
  "toFixed1 n = show_nat n @ ''.0''"

definition half_toFixed1 :: "nat \<Rightarrow> string" where
  "half_toFixed1 n = show_nat (n div 2) @ (if even n then ''.0'' else ''.5'')"

section \<open>The handlers\<close>

text \<open>
  The \<^verbatim>\<open>disconnect\<close> listener. The display name, the host of the room and the user
  name are read first; \<^verbatim>\<open>removeUserFromMaps\<close> is the last statement.
\<close>

definition disconnect :: "server \<Rightarrow> string \<Rightarrow> result" where
  "disconnect s socket_id =
    (if truthy (obj_get (userName (cD s)) socket_id) then
       (let displayName = setDisplayName (cD s) socket_id ''prens'';
            message = to_str displayName @ '' has disconnected.'';
            hostID_v = obj_get (hostID (cD s)) (to_str (obj_get (room (cD s)) socket_id));
            out = [Emit (ToId (pv hostID_v)) ''chat message'' (PStr (message @ ''.'')),
                   Emit (ToId (pv hostID_v)) ''client-disconnected''
                     (pv (obj_get (userName (cD s)) socket_id))]
        in (s\<lparr>cD := removeUserFromMaps (cD s) socket_id\<rparr>, out, None))
     else (s, [], None))"

text \<open>
  \<^verbatim>\<open>socket.disconnect()\<close>: the transport closes the socket and, as socket.io does for a
  socket that is still connected, runs its \<^verbatim>\<open>disconnect\<close> listener before returning.
\<close>

definition socket_disconnect :: "server \<Rightarrow> string \<Rightarrow> result" where
  "socket_disconnect s socket_id =
    (case disconnect s socket_id of (s', out, e) \<Rightarrow> (s', SocketDisconnect socket_id # out, e))"

text \<open>The hints of the handshake, \<^verbatim>\<open>socket.handshake.auth\<close>.\<close>

record auth =
  auth_mode :: jsval
  auth_currentName :: jsval
  auth_nickName :: jsval
  auth_teamName :: jsval

text \<open>\<^verbatim>\<open>user_name.slice(1)\<close>: a \<^verbatim>\<open>TypeError\<close> when \<^verbatim>\<open>user_name\<close> is not a string.\<close>

fun slice1 :: "jsval \<Rightarrow> error + string" where
  "slice1 (Str n) = Inr (drop 1 n)"
| "slice1 Undefined = Inl TypeError"
| "slice1 Null = Inl TypeError"

text \<open>
  The connection handler up to \<^verbatim>\<open>setTimer("initialize")\<close>; the listeners it registers
  are the handlers below.
\<close>

definition connection :: "server \<Rightarrow> string \<Rightarrow> auth \<Rightarrow> result" where
  "connection s socket_id a =
    (let d1 = (cD s)\<lparr>connectionIndex := connectionIndex (cD s) + 1\<rparr>;
         d2 = (if js_eq (auth_mode a) (Str ''normal'')
               then d1\<lparr>nameIndex := mintName (nameIndex d1) (userName d1)\<rparr> else d1);
         user_name = (if js_eq (auth_mode a) (Str ''normal'') then Str (''u'' @ show_nat (nameIndex d2))
                      else if js_eq (auth_mode a) (Str ''re-connect'') then auth_currentName a
                      else Undefined);
         nick_name0 = setDefault (auth_nickName a) Null;
         nick_r = (if truthy nick_name0 \<and> nameInUse nick_name0 (nickName d2)
                   then (case slice1 user_name of
                           Inl e \<Rightarrow> Inl e
                         | Inr suffix \<Rightarrow> Inr (Str (to_str nick_name0 @ suffix)))
                   else Inr nick_name0)
     in case nick_r of
          Inl e \<Rightarrow> (s\<lparr>cD := d2\<rparr>, [], Some e)
        | Inr nick_name \<Rightarrow>
           (let team_name = setDefault (auth_teamName a) Null;
                d3 = d2\<lparr>userName := obj_set (userName d2) socket_id user_name\<rparr>;
                d4 = d3\<lparr>nickName := obj_set (nickName d3) socket_id nick_name\<rparr>;
                d5 = d4\<lparr>teamName := obj_set (teamName d4) socket_id team_name\<rparr>;
                d6 = d5\<lparr>idm := obj_set (idm d5) (to_str user_name) (Str socket_id)\<rparr>;
                out = (if \<not> js_eq (Str socket_id) (obj_get (hostID d6) (to_str (obj_get (room d6) socket_id)))
                       then [Emit (ToId (PStr socket_id)) ''your name is''
                               (PObj [(''name'', pv (obj_get (userName d6) socket_id))])]
                       else [])
            in (sock_put (s\<lparr>cD := d6\<rparr>) socket_id (setTimer sock_new ''initialize'' 40), out, None)))"

text \<open>The echo test.\<close>

definition echo_from_Client_to_Server :: "server \<Rightarrow> string \<Rightarrow> payload \<Rightarrow> result" where
  "echo_from_Client_to_Server s socket_id msg =
    (if msg = PStr ''server'' then
       (s, [Emit (ToId (PStr socket_id)) ''echo-from-Server-to-Client'' (PStr ''server'')], None)
     else if msg = PStr ''host'' then
       (s, [Emit (ToId (pv (obj_get (hostID (cD s)) (to_str (obj_get (room (cD s)) socket_id)))))
              ''echo-from-Server-to-Host'' (PStr socket_id)], None)
     else (s, [], None))"

definition echo_from_Host_to_Server :: "server \<Rightarrow> string \<Rightarrow> payload \<Rightarrow> result" where
  "echo_from_Host_to_Server s socket_id msg =
    (s, [Emit (ToId msg) ''echo-from-Server-to-Client'' (PStr ''host'')], None)"

text \<open>Signaling in support of WebRTC.\<close>

definition signaling_message :: "server \<Rightarrow> string \<Rightarrow> payload \<Rightarrow> result" where
  "signaling_message s socket_id msg =
    (case get_prop msg ''to'' of
       Inl e \<Rightarrow> (s, [], Some e)
     | Inr to \<Rightarrow>
        (let target = (if to = PStr ''host''
                       then pv (obj_get (hostID (cD s)) (to_str (obj_get (room (cD s)) socket_id)))
                       else pv (obj_get (idm (cD s)) (p_to_str to)))
         in (s, [Emit (ToId target) ''signaling message'' msg], None)))"

text \<open>Mouse and keyboard states, sent on to the host of the sender's room.\<close>

definition client_mK_event :: "server \<Rightarrow> string \<Rightarrow> payload \<Rightarrow> result" where
  "client_mK_event s socket_id msg =
    (let hostID_v = obj_get (hostID (cD s)) (to_str (obj_get (room (cD s)) socket_id))
     in (s, [Emit (ToId (pv hostID_v)) ''client-mK-StH-event'' msg], None))"

definition command_from_host_to_all_clients :: "server \<Rightarrow> string \<Rightarrow> payload \<Rightarrow> result" where
  "command_from_host_to_all_clients s socket_id msg =
    (s, [Emit (ToId (pv (obj_get (room (cD s)) socket_id))) ''command-from-host-to-all-clients'' msg], None)"

text \<open>
  The report functions. \<^verbatim>\<open>io.engine.clientsCount\<close> belongs to the transport; the
  \<^verbatim>\<open>chat message\<close> event brings the value it has when the handler runs.
\<close>

definition countValidNames :: "obj \<Rightarrow> nat" where
  "countValidNames nameMap = length (filter (\<lambda>p. truthy (snd p)) nameMap)"

definition connectionInfo :: "clientData \<Rightarrow> nat \<Rightarrow> string" where
  "connectionInfo d clientsCount =
     ''sockets='' @ show_nat clientsCount @ '', connection acts='' @ show_nat (connectionIndex d)
     @ '', names='' @ show_nat (length (obj_keys (userName d)))
     @ '', nick names='' @ show_nat (countValidNames (nickName d))
     @ '', team names='' @ show_nat (countValidNames (teamName d))"

definition roomReport_user :: "clientData \<Rightarrow> string \<Rightarrow> string \<Rightarrow> string \<Rightarrow> string" where
  "roomReport_user d roomInMap usersByRoom socket_id =
    (let userName_v = obj_get (userName d) socket_id;
         userNickName = obj_get (nickName d) socket_id;
         userTeamName = obj_get (teamName d) socket_id;
         teamString = (if truthy userTeamName then ''.'' @ to_str userTeamName else [])
     in if js_eq (obj_get (room d) socket_id) (Str roomInMap) then
          (if js_eq userName_v (obj_get (userName d) (to_str (obj_get (hostID d) roomInMap))) then
             (if truthy userNickName
              then usersByRoom @ to_str userName_v @ ''(h-'' @ to_str userNickName @ teamString @ ''), ''
              else usersByRoom @ to_str userName_v @ ''(h), '')
           else
             (if truthy userNickName
              then usersByRoom @ to_str userName_v @ ''('' @ to_str userNickName @ teamString @ ''), ''
              else usersByRoom @ to_str userName_v @ '', ''))
        else usersByRoom)"

definition roomReport_room :: "clientData \<Rightarrow> string \<Rightarrow> string \<Rightarrow> string" where
  "roomReport_room d usersByRoom roomInMap =
    (let u = foldl (roomReport_user d roomInMap)
               (usersByRoom @ ''<br>clients in '' @ roomInMap @ '' = '') (obj_keys (userName d))
     in take (length u - 2) u)"

definition roomReport :: "clientData \<Rightarrow> nat \<Rightarrow> string" where
  "roomReport d clientsCount =
     foldl (roomReport_room d) (connectionInfo d clientsCount) (obj_keys (hostID d))"

text \<open>\<^verbatim>\<open>disconnectClientsInOneRoom(roomName)\<close>: one message to every user of the room but its host.\<close>

definition disconnectClientsInOneRoom :: "clientData \<Rightarrow> jsval \<Rightarrow> action list" where
  "disconnectClientsInOneRoom d roomName_v =
     concat (map (\<lambda>socket_id.
        if js_eq (obj_get (room d) socket_id) roomName_v then
          (if \<not> js_eq (Str socket_id) (obj_get (hostID d) (to_str roomName_v)) then
             [Emit (ToId (PStr socket_id)) ''disconnectByServer''
                (PObj [(''name'', pv (obj_get (userName d) socket_id)), (''originator'', PStr ''host'')])]
           else [])
        else []) (obj_keys (userName d)))"

text \<open>
  The \<^verbatim>\<open>chat message\<close> handler restarts the timers of the socket, then serves the
  commands \<^verbatim>\<open>dcir\<close>, \<^verbatim>\<open>dac\<close> and \<^verbatim>\<open>rr\<close> or sends the message to the sender's room.
\<close>

definition chat_message :: "server \<Rightarrow> string \<Rightarrow> payload \<Rightarrow> nat \<Rightarrow> result" where
  "chat_message s socket_id msg clientsCount =
    (let s1 = sock_put s socket_id (setTimer (sock_of s socket_id) ''restart'' 40);
         room_v = obj_get (room (cD s)) socket_id;
         hostID_v = obj_get (hostID (cD s)) (to_str room_v)
     in if msg = PStr ''dcir'' then
          (if js_eq (Str socket_id) hostID_v
           then (s1, disconnectClientsInOneRoom (cD s) room_v, None)
           else (s1, [Emit (ToId (PStr socket_id)) ''chat message''
                        (PStr ''Requests to disconnect clients must come from the host.'')], None))
        else if msg = PStr ''dac'' then (s1, [], None)
        else if msg = PStr ''rr'' then
          (if js_eq (Str socket_id) hostID_v
           then (s1, [Emit (ToId (pv hostID_v)) ''chat message''
                        (PStr (roomReport (cD s) clientsCount))], None)
           else (s1, [Emit (ToId (PStr socket_id)) ''chat message''
                        (PStr ''Requests for room reports must come from the host.'')], None))
        else
          (s1, [Emit (ToId (pv room_v)) ''chat message''
                  (PStr (p_to_str msg @ '' ('' @ to_str (setDisplayName (cD s) socket_id ''comma'') @ '')''))],
           None))"

definition chat_message_but_not_me :: "server \<Rightarrow> string \<Rightarrow> payload \<Rightarrow> result" where
  "chat_message_but_not_me s socket_id msg =
    (s, [Emit (ToRoomExceptSender (obj_get (room (cD s)) socket_id) socket_id) ''chat message''
           (PStr (p_to_str msg @ '' ('' @ to_str (setDisplayName (cD s) socket_id ''comma'') @ '')''))],
     None)"

text \<open>
  The \<^verbatim>\<open>roomJoin\<close> message; \<^verbatim>\<open>roomName\<close> and \<^verbatim>\<open>hostOrClient\<close> are strings when they
  are present.
\<close>

record roomJoin_msg =
  roomName :: jsval
  requestStream :: payload
  player :: payload
  hostOrClient :: jsval

definition roomJoin :: "server \<Rightarrow> string \<Rightarrow> roomJoin_msg \<Rightarrow> result" where
  "roomJoin s socket_id msg =
    (let roomName_v = setDefault (roomName msg) Null;
         requestStream_v = (if requestStream msg \<noteq> PUndefined then requestStream msg else PBool False);
         player_v = (if player msg \<noteq> PUndefined then player msg else PNull);
         hostOrClient_v = setDefault (hostOrClient msg) (Str ''client'');
         nickName_v = obj_get (nickName (cD s)) socket_id;
         teamName_v = obj_get (teamName (cD s)) socket_id;
         displayName = setDisplayName (cD s) socket_id ''prens'';
         userName_v = obj_get (userName (cD s)) socket_id
     in if js_eq hostOrClient_v (Str ''client'') then
          (if truthy (obj_get (hostID (cD s)) (to_str roomName_v)) then
             (let d = (cD s)\<lparr>room := obj_set (room (cD s)) socket_id roomName_v\<rparr>
              in (s\<lparr>cD := d\<rparr>,
                  [Join socket_id roomName_v,
                   Emit (ToId (PStr socket_id)) ''room-joining-message''
                     (PObj [(''message'', PStr (''You have joined room '' @ to_str (obj_get (room d) socket_id)
                                @ '' and your client name is '' @ to_str displayName @ ''.'')),
                            (''userName'', pv userName_v)]),
                   Emit (ToId (pv (obj_get (hostID d) (to_str roomName_v)))) ''new-game-client''
                     (PObj [(''clientName'', pv userName_v), (''requestStream'', requestStream_v),
                            (''player'', player_v), (''nickName'', pv nickName_v),
                            (''teamName'', pv teamName_v)]),
                   Emit (ToId (pv (obj_get (hostID d) (to_str roomName_v)))) ''chat message''
                     (PStr (to_str displayName @ '' is a new client in room '' @ to_str roomName_v @ ''.''))],
                  None))
           else
             (s, [Emit (ToId (PStr socket_id)) ''room-joining-message''
                    (PObj [(''message'', PStr (''Sorry, there is no host yet for room '' @ to_str roomName_v @ ''.'')),
                           (''userName'', pv userName_v)])],
              None))
        else if js_eq hostOrClient_v (Str ''host'') then
          (if truthy (obj_get (hostID (cD s)) (to_str roomName_v)) then
             (s, [Emit (ToId (PStr socket_id)) ''room-joining-message''
                    (PObj [(''message'', PStr (''Sorry, there is already a host for room '' @ to_str roomName_v @ ''.'')),
                           (''userName'', pv userName_v)])],
              None)
           else
             (let d1 = (cD s)\<lparr>room := obj_set (room (cD s)) socket_id roomName_v\<rparr>;
                  d2 = d1\<lparr>hostID := obj_set (hostID d1) (to_str (obj_get (room d1) socket_id)) (Str socket_id)\<rparr>
              in (s\<lparr>cD := d2\<rparr>,
                  [Join socket_id roomName_v,
                   Emit (ToId (PStr socket_id)) ''room-joining-message''
                     (PObj [(''message'', PStr (''You have joined room '' @ to_str (obj_get (room d1) socket_id)
                                @ '' and your client name is '' @ to_str displayName @ ''.'')),
                            (''userName'', pv userName_v), (''nickName'', pv nickName_v)]),
                   Emit (ToId (PStr socket_id)) ''room-joining-message''
                     (PObj [(''message'', PStr (''You are the host of room '' @ to_str (obj_get (room d2) socket_id) @ ''.'')),
                            (''userName'', pv userName_v)])],
                  None)))
        else (s, [], None))"

text \<open>The host asks a client to leave; the client agrees with \<^verbatim>\<open>okDisconnectMe\<close>.\<close>

definition clientDisconnectByHost :: "server \<Rightarrow> string \<Rightarrow> payload \<Rightarrow> result" where
  "clientDisconnectByHost s socket_id msg =
    (let clientName = msg;
         clientID = obj_get (idm (cD s)) (p_to_str clientName)
     in (s, [Emit (ToId (pv clientID)) ''disconnectByServer''
               (PObj [(''name'', clientName), (''originator'', PStr ''host'')])], None))"

definition okDisconnectMe :: "server \<Rightarrow> string \<Rightarrow> payload \<Rightarrow> result" where
  "okDisconnectMe s socket_id msg =
    (let clientName = msg;
         clientID = obj_get (idm (cD s)) (p_to_str clientName);
         message = p_to_str clientName @ '' has disconnected'';
         hostID_v = obj_get (hostID (cD s)) (to_str (obj_get (room (cD s)) (to_str clientID)));
         out = [Emit (ToId (pv hostID_v)) ''chat message'' (PStr message),
                Emit (ToId (pv hostID_v)) ''client-disconnected'' clientName]
     in case socket_disconnect (s\<lparr>cD := removeUserFromMaps (cD s) socket_id\<rparr>) socket_id of
          (s', out', e) \<Rightarrow> (s', out @ out', e))"

definition shutDown_p2p_deleteClient :: "server \<Rightarrow> string \<Rightarrow> payload \<Rightarrow> result" where
  "shutDown_p2p_deleteClient s socket_id msg =
    (let clientName = msg;
         clientID = obj_get (idm (cD s)) (p_to_str clientName);
         hostID_v = obj_get (hostID (cD s)) (to_str (obj_get (room (cD s)) (to_str clientID)))
     in (s, [Emit (ToId (pv hostID_v)) ''shutDown-p2p-deleteClient'' clientName], None))"

text \<open>
  The callbacks of the two timers of \<^verbatim>\<open>setTimer\<close>. The warning callback was given
  \<^verbatim>\<open>t_min\<close> by the call that scheduled it; the logoff callback reads \<^verbatim>\<open>idleTime_m\<close>
  when it runs.
\<close>

definition warningTimer_callback :: "server \<Rightarrow> string \<Rightarrow> nat \<Rightarrow> result" where
  "warningTimer_callback s socket_id t_min =
    (let warningMessage = ''Idle socket will disconnect in '' @ half_toFixed1 t_min @ '' minutes.''
           @ ''</br></br>Click <strong>Chat</strong> to reset the disconnect timer to ''
           @ toFixed1 t_min @ '' minutes.''
     in (s, [Emit (ToSocket socket_id) ''chat message'' (PStr warningMessage)], None))"

definition logoffTimer_callback :: "server \<Rightarrow> string \<Rightarrow> result" where
  "logoffTimer_callback s socket_id =
    (let k = sock_of s socket_id;
         disconnectNotice = ''Idle for '' @ toFixed1 (idleTime_m k) @ '' minutes. Network socket disconnected.'';
         advice = ''</br></br>Click <strong>Chat</strong> before disconnection for 40 minutes of network time.''
           @ ''</br></br>To <strong>reconnect:</strong> hosts click <strong>Create</strong>, clients click <strong>Connect</strong>.''
     in if js_eq (Str socket_id) (obj_get (hostID (cD s)) (to_str (obj_get (room (cD s)) socket_id))) then
          (let n_users = length (obj_keys (userName (cD s)))
           in if n_users = 1 \<or> 180 \<le> idleTime_m k then
                (case socket_disconnect (s\<lparr>cD := removeUserFromMaps (cD s) socket_id\<rparr>) socket_id of
                   (s', out, e) \<Rightarrow>
                     (s', Emit (ToSocket socket_id) ''chat message'' (PStr (disconnectNotice @ advice)) # out, e))
              else
                (let extraTime_m = 5;
                     k' = k\<lparr>idleTime_m := idleTime_m k + extraTime_m\<rparr>
                 in (sock_put s socket_id (setTimer k' ''extend'' extraTime_m), [], None)))
        else
          (s, [Emit (ToSocket socket_id) ''chat message'' (PStr disconnectNotice),
               Emit (ToId (PStr socket_id)) ''disconnectByServer''
                 (PObj [(''name'', pv (obj_get (userName (cD s)) socket_id)),
                        (''originator'', PStr ''server'')])],
           None))"

section \<open>Events and runs\<close>

text \<open>
  One event per handler invocation. A timer event runs the callback of a pending timer
  and spends it; on a timer that is not pending nothing happens. An exception leaves the
  handler; a run stops there. The handlers of \<^verbatim>\<open>control message\<close> and
  \<^verbatim>\<open>name report\<close>, which assign to no variable of the server, have no event here.
\<close>

datatype event =
    Connection string auth
  | EchoFromClient string payload
  | EchoFromHost string payload
  | SignalingMessage string payload
  | ClientMKEvent string payload
  | RoomJoin string roomJoin_msg
  | Disconnect string
  | ClientDisconnectByHost string payload
  | OkDisconnectMe string payload
  | ShutDownP2P string payload
  | CommandFromHost string payload
  | ChatMessage string payload nat
  | ChatMessageButNotMe string payload
  | WarningTimerFires string
  | LogoffTimerFires string

fun handle :: "server \<Rightarrow> event \<Rightarrow> result" where
  "handle s (Connection c a) = connection s c a"
| "handle s (EchoFromClient c msg) = echo_from_Client_to_Server s c msg"
| "handle s (EchoFromHost c msg) = echo_from_Host_to_Server s c msg"
| "handle s (SignalingMessage c msg) = signaling_message s c msg"
| "handle s (ClientMKEvent c msg) = client_mK_event s c msg"
| "handle s (RoomJoin c msg) = roomJoin s c msg"
| "handle s (Disconnect c) = disconnect s c"
| "handle s (ClientDisconnectByHost c msg) = clientDisconnectByHost s c msg"
| "handle s (OkDisconnectMe c msg) = okDisconnectMe s c msg"
| "handle s (ShutDownP2P c msg) = shutDown_p2p_deleteClient s c msg"
| "handle s (CommandFromHost c msg) = command_from_host_to_all_clients s c msg"
| "handle s (ChatMessage c msg clientsCount) = chat_message s c msg clientsCount"
| "handle s (ChatMessageButNotMe c msg) = chat_message_but_not_me s c msg"
| "handle s (WarningTimerFires c) =
     (case warningTimer (sock_of s c) of
        None \<Rightarrow> (s, [], None)
      | Some t_min \<Rightarrow> warningTimer_callback (sock_put s c ((sock_of s c)\<lparr>warningTimer := None\<rparr>)) c t_min)"
| "handle s (LogoffTimerFires c) =
     (case logoffTimer (sock_of s c) of
        None \<Rightarrow> (s, [], None)
      | Some t_min \<Rightarrow> logoffTimer_callback (sock_put s c ((sock_of s c)\<lparr>logoffTimer := None\<rparr>)) c)"

fun run :: "server \<Rightarrow> event list \<Rightarrow> server" where
  "run s [] = s"
| "run s (e # es) =
     (case handle s e of
        (s', out, None) \<Rightarrow> run s' es
      | (s', out, Some err) \<Rightarrow> s')"

section \<open>Predicates and example sessions used below\<close>

text \<open>A socket id occurs in no map: as a key of the four maps keyed by socket id, or as a
  value of \<open>idm\<close> and \<open>hostID\<close>.\<close>

definition absent :: "clientData \<Rightarrow> string \<Rightarrow> bool" where
  "absent d c = (c \<notin> set (obj_keys (userName d)) \<and> c \<notin> set (obj_keys (nickName d))
     \<and> c \<notin> set (obj_keys (teamName d)) \<and> c \<notin> set (obj_keys (room d))
     \<and> Str c \<notin> set (obj_values (idm d)) \<and> Str c \<notin> set (obj_values (hostID d)))"

definition auth_normal :: "jsval \<Rightarrow> auth" where
  "auth_normal nick = \<lparr>auth_mode = Str ''normal'', auth_currentName = Undefined,
     auth_nickName = nick, auth_teamName = Undefined\<rparr>"

definition auth_reconnect :: "jsval \<Rightarrow> jsval \<Rightarrow> auth" where
  "auth_reconnect n nick = \<lparr>auth_mode = Str ''re-connect'', auth_currentName = n,
     auth_nickName = nick, auth_teamName = Undefined\<rparr>"

definition join_msg :: "string \<Rightarrow> string \<Rightarrow> roomJoin_msg" where
  "join_msg r hc = \<lparr>roomName = Str r, requestStream = PUndefined, player = PUndefined,
     hostOrClient = Str hc\<rparr>"

text \<open>One socket that re-connects without a current name.\<close>

definition ex_nameless :: server where
  "ex_nameless = run server_init [Connection ''x'' (auth_reconnect Undefined Undefined)]"

text \<open>One socket connected in normal mode.\<close>

definition ex_one :: server where
  "ex_one = run server_init [Connection ''a'' (auth_normal Undefined)]"

text \<open>One socket that re-connects under the name \<open>u1\<close> before any name was minted.\<close>

definition ex_claimed :: server where
  "ex_claimed = run server_init [Connection ''x'' (auth_reconnect (Str ''u1'') Undefined)]"

text \<open>A host \<open>a\<close> of room \<open>r\<close> and a client \<open>b\<close> in it.\<close>

definition ex_room :: server where
  "ex_room = run server_init
     [Connection ''a'' (auth_normal Undefined), RoomJoin ''a'' (join_msg ''r'' ''host''),
      Connection ''b'' (auth_normal Undefined), RoomJoin ''b'' (join_msg ''r'' ''client'')]"

text \<open>
  The name the connection handler assigns: minted in mode \<^verbatim>\<open>normal\<close>, the hinted
  \<^verbatim>\<open>currentName\<close> in mode \<^verbatim>\<open>re-connect\<close>, \<^verbatim>\<open>undefined\<close> otherwise.
\<close>

definition assigned_name :: "server \<Rightarrow> auth \<Rightarrow> jsval" where
  "assigned_name s a =
     (if auth_mode a = Str ''normal''
      then Str (''u'' @ show_nat (mintName (nameIndex (cD s)) (userName (cD s))))
      else if auth_mode a = Str ''re-connect'' then auth_currentName a else Undefined)"

text \<open>
  Sequences of connection events: connects in mode \<^verbatim>\<open>normal\<close>, re-connects whose hinted
  name is a string that no registered connection holds, and disconnects. The transport
  gives every new connection a socket id that is not registered.
\<close>

fun conn_ok :: "server \<Rightarrow> event \<Rightarrow> bool" where
  "conn_ok s (Connection c a) =
     (c \<notin> set (obj_keys (userName (cD s))) \<and>
      (auth_mode a = Str ''normal'' \<or>
       (auth_mode a = Str ''re-connect'' \<and>
        (case auth_currentName a of
           Str n \<Rightarrow> \<not> nameInUse (Str n) (userName (cD s))
         | _ \<Rightarrow> False))))"
| "conn_ok s (Disconnect c) = True"
| "conn_ok s e = False"

fun conn_seq_ok :: "server \<Rightarrow> event list \<Rightarrow> bool" where
  "conn_seq_ok s [] = True"
| "conn_seq_ok s (e # es) = (conn_ok s e \<and> conn_seq_ok (fst (handle s e)) es)"

text \<open>Keys and names are distinct, and \<open>userName\<close> and \<open>idm\<close> are inverse to each other.\<close>

definition names_inv :: "clientData \<Rightarrow> bool" where
  "names_inv d =
     (distinct (obj_keys (userName d)) \<and> distinct (obj_values (userName d)) \<and>
      (\<forall>c n. obj_get (userName d) c = Str n \<longleftrightarrow> obj_get (idm d) n = Str c))"

text \<open>A host alone in its room.\<close>

definition ex_host_alone :: server where
  "ex_host_alone = run server_init
     [Connection ''a'' (auth_normal Undefined), RoomJoin ''a'' (join_msg ''r'' ''host'')]"

text \<open>Socket \<open>c\<close> re-connects under the name of the connected socket \<open>a\<close>.\<close>

definition ex_dup :: server where
  "ex_dup = run server_init
     [Connection ''a'' (auth_normal Undefined),
      Connection ''c'' (auth_reconnect (Str ''u1'') Undefined)]"

text \<open>Two sockets ask for the nickname Alice; a third re-connects as \<open>u2\<close> and asks for it too.\<close>

definition ex_nick :: server where
  "ex_nick = run server_init
     [Connection ''a'' (auth_normal (Str ''Alice'')), Connection ''b'' (auth_normal (Str ''Alice'')),
      Connection ''c'' (auth_reconnect (Str ''u2'') (Str ''Alice''))]"

text \<open>A sequence of connection events: a connect, a re-connect as \<open>u7\<close>, a disconnect, a connect.\<close>

definition ex_conn_events :: "event list" where
  "ex_conn_events =
     [Connection ''a'' (auth_normal Undefined), Connection ''b'' (auth_reconnect (Str ''u7'') Undefined),
      Disconnect ''a'', Connection ''c'' (auth_normal Undefined)]"

text \<open>Socket \<open>a\<close> asks for the nickname Alice; after an echo, socket \<open>b\<close> asks for it too.\<close>

definition ex_alice1 :: server where
  "ex_alice1 = fst (connection server_init ''a'' (auth_normal (Str ''Alice'')))"

definition ex_alice2 :: server where
  "ex_alice2 = fst (connection (run ex_alice1 [EchoFromClient ''a'' (PStr ''server'')]) ''b''
     (auth_normal (Str ''Alice'')))"

text \<open>
  A host \<open>a\<close> of room \<open>r\<close>; socket \<open>x\<close> re-connects without a name and joins the room
  as a client.
\<close>

definition ex_nameless_member :: server where
  "ex_nameless_member = run server_init
     [Connection ''a'' (auth_normal Undefined), RoomJoin ''a'' (join_msg ''r'' ''host''),
      Connection ''x'' (auth_reconnect Undefined Undefined), RoomJoin ''x'' (join_msg ''r'' ''client'')]"

text \<open>Three sockets re-connect as \<open>u1\<close>, \<open>u2\<close> and \<open>u4\<close> before any name was minted.\<close>

definition ex_gap :: server where
  "ex_gap = run server_init
     [Connection ''p'' (auth_reconnect (Str ''u1'') Undefined),
      Connection ''q'' (auth_reconnect (Str ''u2'') Undefined),
      Connection ''r'' (auth_reconnect (Str ''u4'') Undefined)]"

text \<open>Two sockets connect; then the first one disconnects and \<open>u1\<close> is free again.\<close>

definition ex_two :: server where
  "ex_two = run server_init
     [Connection ''a'' (auth_normal Undefined), Connection ''b'' (auth_normal Undefined)]"

definition ex_freed :: server where
  "ex_freed = run ex_two [Disconnect ''a'']"

section \<open>Facts about objects\<close>

lemma obj_get_set: "obj_get (obj_set m k v) k' = (if k' = k then v else obj_get m k')"
  by (simp add: obj_get_def obj_set_def update_conv')

lemma obj_get_delete: "obj_get (obj_delete m k) k' = (if k' = k then Undefined else obj_get m k')"
  by (simp add: obj_get_def obj_delete_def delete_conv')

lemma obj_get_absent: "k \<notin> set (obj_keys m) \<Longrightarrow> obj_get m k = Undefined"
  by (simp add: obj_get_def obj_keys_def map_of_eq_None_iff[THEN iffD2])

lemma obj_delete_absent: "k \<notin> set (obj_keys m) \<Longrightarrow> obj_delete m k = m"
  by (simp add: obj_delete_def obj_keys_def)

lemma obj_keys_delete: "set (obj_keys (obj_delete m k)) = set (obj_keys m) - {k}"
  by (simp add: obj_keys_def obj_delete_def delete_keys)

lemma obj_keys_set: "set (obj_keys (obj_set m k v)) = insert k (set (obj_keys m))"
  using dom_update[of k v m] by (simp add: obj_keys_def obj_set_def)

lemma obj_get_value: "obj_get m k = Str v \<Longrightarrow> Str v \<in> set (obj_values m)"
proof -
  assume a: "obj_get m k = Str v"
  then have "map_of m k = Some (Str v)"
    by (simp add: obj_get_def split: option.splits)
  then have "(k, Str v) \<in> set m"
    by (rule map_of_SomeD)
  then show ?thesis
    by (force simp: obj_values_def)
qed

lemma js_eq_Str: "js_eq v (Str c) \<longleftrightarrow> v = Str c"
  by (cases v) auto

lemma js_eq_Str': "js_eq (Str c) v \<longleftrightarrow> v = Str c"
  by (cases v) auto

lemma distinct_keys_set: "distinct (obj_keys m) \<Longrightarrow> distinct (obj_keys (obj_set m k v))"
  by (simp add: obj_keys_def obj_set_def distinct_update)

lemma distinct_keys_delete: "distinct (obj_keys m) \<Longrightarrow> distinct (obj_keys (obj_delete m k))"
  by (simp add: obj_keys_def obj_delete_def distinct_delete)

lemma update_fresh: "k \<notin> fst ` set m \<Longrightarrow> AList.update k v m = m @ [(k, v)]"
  by (induction m) auto

lemma nameInUse_values: "nameInUse (Str n) m \<longleftrightarrow> Str n \<in> set (obj_values m)"
  by (induction m) (auto simp: obj_values_def js_eq_Str)

lemma nameInUse_stored: "obj_get m k = Str X \<Longrightarrow> nameInUse (Str X) m"
  using obj_get_value[of m k X] by (simp add: nameInUse_values)

lemma truthy_Str: "truthy v \<Longrightarrow> \<exists>n. v = Str n"
  by (cases v) auto

lemmas obj_eval = obj_get_def obj_set_def obj_delete_def obj_keys_def obj_values_def

lemmas state_eval = server_init_def cD_init_def sock_put_def sock_of_def sock_new_def setTimer_def
  setDefault_def Let_def auth_normal_def auth_reconnect_def join_msg_def

lemmas name_eval = mintName.simps show_nat.simps digit_char_def

section \<open>The example sessions, evaluated\<close>

lemma ex_nameless_value: "ex_nameless =
  \<lparr>cD = \<lparr>connectionIndex = 1, nameIndex = 0, userName = [(''x'', Undefined)],
      nickName = [(''x'', Null)], teamName = [(''x'', Null)], idm = [(''undefined'', Str ''x'')],
      room = [], hostID = []\<rparr>,
    socks = [(''x'', \<lparr>idleTime_m = 40, warningTimer = Some 40, logoffTimer = Some 40\<rparr>)]\<rparr>"
  by (simp add: ex_nameless_def connection_def state_eval obj_eval)

lemma ex_one_value: "ex_one =
  \<lparr>cD = \<lparr>connectionIndex = 1, nameIndex = 1, userName = [(''a'', Str ''u1'')],
      nickName = [(''a'', Null)], teamName = [(''a'', Null)], idm = [(''u1'', Str ''a'')],
      room = [], hostID = []\<rparr>,
    socks = [(''a'', \<lparr>idleTime_m = 40, warningTimer = Some 40, logoffTimer = Some 40\<rparr>)]\<rparr>"
  by (simp add: ex_one_def connection_def state_eval obj_eval name_eval)

lemma ex_claimed_value: "ex_claimed =
  \<lparr>cD = \<lparr>connectionIndex = 1, nameIndex = 0, userName = [(''x'', Str ''u1'')],
      nickName = [(''x'', Null)], teamName = [(''x'', Null)], idm = [(''u1'', Str ''x'')],
      room = [], hostID = []\<rparr>,
    socks = [(''x'', \<lparr>idleTime_m = 40, warningTimer = Some 40, logoffTimer = Some 40\<rparr>)]\<rparr>"
  by (simp add: ex_claimed_def connection_def state_eval obj_eval)

lemma ex_room_value: "ex_room =
  \<lparr>cD = \<lparr>connectionIndex = 2, nameIndex = 2, userName = [(''a'', Str ''u1''), (''b'', Str ''u2'')],
      nickName = [(''a'', Null), (''b'', Null)], teamName = [(''a'', Null), (''b'', Null)],
      idm = [(''u1'', Str ''a''), (''u2'', Str ''b'')],
      room = [(''a'', Str ''r''), (''b'', Str ''r'')], hostID = [(''r'', Str ''a'')]\<rparr>,
    socks = [(''a'', \<lparr>idleTime_m = 40, warningTimer = Some 40, logoffTimer = Some 40\<rparr>),
             (''b'', \<lparr>idleTime_m = 40, warningTimer = Some 40, logoffTimer = Some 40\<rparr>)]\<rparr>"
  by (simp add: ex_room_def connection_def roomJoin_def state_eval obj_eval name_eval)

lemma ex_host_alone_value: "ex_host_alone =
  \<lparr>cD = \<lparr>connectionIndex = 1, nameIndex = 1, userName = [(''a'', Str ''u1'')],
      nickName = [(''a'', Null)], teamName = [(''a'', Null)], idm = [(''u1'', Str ''a'')],
      room = [(''a'', Str ''r'')], hostID = [(''r'', Str ''a'')]\<rparr>,
    socks = [(''a'', \<lparr>idleTime_m = 40, warningTimer = Some 40, logoffTimer = Some 40\<rparr>)]\<rparr>"
  by (simp add: ex_host_alone_def connection_def roomJoin_def state_eval obj_eval name_eval)

lemma ex_dup_value: "ex_dup =
  \<lparr>cD = \<lparr>connectionIndex = 2, nameIndex = 1, userName = [(''a'', Str ''u1''), (''c'', Str ''u1'')],
      nickName = [(''a'', Null), (''c'', Null)], teamName = [(''a'', Null), (''c'', Null)],
      idm = [(''u1'', Str ''c'')], room = [], hostID = []\<rparr>,
    socks = [(''a'', \<lparr>idleTime_m = 40, warningTimer = Some 40, logoffTimer = Some 40\<rparr>),
             (''c'', \<lparr>idleTime_m = 40, warningTimer = Some 40, logoffTimer = Some 40\<rparr>)]\<rparr>"
  by (simp add: ex_dup_def connection_def state_eval obj_eval name_eval)

lemma ex_nick_value: "cD ex_nick =
  \<lparr>connectionIndex = 3, nameIndex = 2,
    userName = [(''a'', Str ''u1''), (''b'', Str ''u2''), (''c'', Str ''u2'')],
    nickName = [(''a'', Str ''Alice''), (''b'', Str ''Alice2''), (''c'', Str ''Alice2'')],
    teamName = [(''a'', Null), (''b'', Null), (''c'', Null)],
    idm = [(''u1'', Str ''a''), (''u2'', Str ''c'')], room = [], hostID = []\<rparr>"
  by (simp add: ex_nick_def connection_def state_eval obj_eval name_eval)

lemma ex_conn_events_value: "userName (cD (run server_init ex_conn_events)) =
  [(''b'', Str ''u7''), (''c'', Str ''u2'')]"
  by (simp add: ex_conn_events_def connection_def disconnect_def removeUserFromMaps_def
      setDisplayName_def state_eval obj_eval name_eval)

lemma ex_alice1_value: "ex_alice1 =
  \<lparr>cD = \<lparr>connectionIndex = 1, nameIndex = 1, userName = [(''a'', Str ''u1'')],
      nickName = [(''a'', Str ''Alice'')], teamName = [(''a'', Null)], idm = [(''u1'', Str ''a'')],
      room = [], hostID = []\<rparr>,
    socks = [(''a'', \<lparr>idleTime_m = 40, warningTimer = Some 40, logoffTimer = Some 40\<rparr>)]\<rparr>"
  by (simp add: ex_alice1_def connection_def state_eval obj_eval name_eval)

lemma ex_nameless_member_value: "ex_nameless_member =
  \<lparr>cD = \<lparr>connectionIndex = 2, nameIndex = 1, userName = [(''a'', Str ''u1''), (''x'', Undefined)],
      nickName = [(''a'', Null), (''x'', Null)], teamName = [(''a'', Null), (''x'', Null)],
      idm = [(''u1'', Str ''a''), (''undefined'', Str ''x'')],
      room = [(''a'', Str ''r''), (''x'', Str ''r'')], hostID = [(''r'', Str ''a'')]\<rparr>,
    socks = [(''a'', \<lparr>idleTime_m = 40, warningTimer = Some 40, logoffTimer = Some 40\<rparr>),
             (''x'', \<lparr>idleTime_m = 40, warningTimer = Some 40, logoffTimer = Some 40\<rparr>)]\<rparr>"
  by (simp add: ex_nameless_member_def connection_def roomJoin_def state_eval obj_eval name_eval)

lemma ex_gap_value: "cD ex_gap =
  \<lparr>connectionIndex = 3, nameIndex = 0,
    userName = [(''p'', Str ''u1''), (''q'', Str ''u2''), (''r'', Str ''u4'')],
    nickName = [(''p'', Null), (''q'', Null), (''r'', Null)],
    teamName = [(''p'', Null), (''q'', Null), (''r'', Null)],
    idm = [(''u1'', Str ''p''), (''u2'', Str ''q''), (''u4'', Str ''r'')], room = [], hostID = []\<rparr>"
  by (simp add: ex_gap_def connection_def state_eval obj_eval)

lemma ex_two_value: "ex_two =
  \<lparr>cD = \<lparr>connectionIndex = 2, nameIndex = 2, userName = [(''a'', Str ''u1''), (''b'', Str ''u2'')],
      nickName = [(''a'', Null), (''b'', Null)], teamName = [(''a'', Null), (''b'', Null)],
      idm = [(''u1'', Str ''a''), (''u2'', Str ''b'')], room = [], hostID = []\<rparr>,
    socks = [(''a'', \<lparr>idleTime_m = 40, warningTimer = Some 40, logoffTimer = Some 40\<rparr>),
             (''b'', \<lparr>idleTime_m = 40, warningTimer = Some 40, logoffTimer = Some 40\<rparr>)]\<rparr>"
  by (simp add: ex_two_def connection_def state_eval obj_eval name_eval)

lemma ex_freed_value: "cD ex_freed =
  \<lparr>connectionIndex = 2, nameIndex = 2, userName = [(''b'', Str ''u2'')],
    nickName = [(''a'', Null), (''b'', Null)], teamName = [(''a'', Null), (''b'', Null)],
    idm = [(''u2'', Str ''b'')], room = [], hostID = []\<rparr>"
  unfolding ex_freed_def ex_two_value
  by (simp add: disconnect_def removeUserFromMaps_def Let_def obj_eval)

section \<open>Removal and the disconnect listener\<close>

lemma removeUserFromMaps_absent:
  assumes "absent d c" and "''undefined'' \<notin> set (obj_keys (idm d))"
  shows "removeUserFromMaps d c = d"
proof -
  from assms(1) have g: "obj_get (userName d) c = Undefined" "obj_get (nickName d) c = Undefined"
    "obj_get (teamName d) c = Undefined" "obj_get (room d) c = Undefined"
    by (simp_all add: absent_def obj_get_absent)
  from assms(1) have h: "obj_get (hostID d) ''undefined'' \<noteq> Str c"
    using obj_get_value[of "hostID d" "''undefined''" c] by (auto simp: absent_def)
  from assms(1) have k: "obj_delete (userName d) c = userName d" "obj_delete (room d) c = room d"
    by (simp_all add: absent_def obj_delete_absent)
  from assms(2) have i: "obj_delete (idm d) ''undefined'' = idm d"
    by (simp add: obj_delete_absent)
  show ?thesis
    by (simp add: removeUserFromMaps_def Let_def g h k i js_eq_Str)
qed

lemma userName_removed: "obj_get (userName (removeUserFromMaps d c)) c = Undefined"
  by (simp add: removeUserFromMaps_def Let_def obj_get_delete)

text \<open>
  C9, as the claim states it, fails on its last part: removing an id that occurs in no map
  deletes \<^verbatim>\<open>cD.id[undefined]\<close>, the entry of a socket that connected without a name.
  Here socket \<open>x\<close> re-connected with no \<^verbatim>\<open>currentName\<close>; removing the unknown id \<open>c\<close>
  changes the maps.
\<close>

theorem remove_absent_counterexample:
  "absent (cD ex_nameless) ''c'' \<and> removeUserFromMaps (cD ex_nameless) ''c'' \<noteq> cD ex_nameless"
  unfolding ex_nameless_value by (simp add: absent_def removeUserFromMaps_def obj_eval Let_def)

text \<open>
  C9 (amended). The disconnect listener of a socket without a registered name sends
  nothing and changes nothing; in particular, after \<^verbatim>\<open>removeUserFromMaps\<close> has removed a
  socket, its disconnect listener is a no-op. Removing an id that occurs in no map leaves
  every map as it is, provided the map \<^verbatim>\<open>cD.id\<close> has no entry under the key
  \<^verbatim>\<open>undefined\<close>.
\<close>

theorem disconnect_removed_noop:
  "(\<not> truthy (obj_get (userName (cD s)) c) \<longrightarrow> disconnect s c = (s, [], None)) \<and>
   disconnect (s\<lparr>cD := removeUserFromMaps (cD s) c\<rparr>) c
     = (s\<lparr>cD := removeUserFromMaps (cD s) c\<rparr>, [], None) \<and>
   (absent d c \<and> ''undefined'' \<notin> set (obj_keys (idm d)) \<longrightarrow> removeUserFromMaps d c = d)"
  by (simp add: disconnect_def userName_removed removeUserFromMaps_absent)

theorem disconnect_removed_noop_witness:
  "disconnect ex_one ''zz'' = (ex_one, [], None) \<and>
   removeUserFromMaps (cD ex_one) ''zz'' = cD ex_one"
proof -
  have h1: "\<not> truthy (obj_get (userName (cD ex_one)) ''zz'')"
    unfolding ex_one_value by (simp add: obj_eval)
  have h2: "absent (cD ex_one) ''zz'' \<and> ''undefined'' \<notin> set (obj_keys (idm (cD ex_one)))"
    unfolding ex_one_value by (simp add: absent_def obj_eval)
  from disconnect_removed_noop[of ex_one "''zz''" "cD ex_one"] h1 h2
  show ?thesis by blast
qed

section \<open>Relay events\<close>

text \<open>
  C10. The handlers of \<^verbatim>\<open>echo-from-Client-to-Server\<close>, \<^verbatim>\<open>echo-from-Host-to-Server\<close>,
  \<^verbatim>\<open>signaling message\<close>, \<^verbatim>\<open>client-mK-event\<close> and \<^verbatim>\<open>command-from-host-to-all-clients\<close>
  leave the whole server state, so every map of \<^verbatim>\<open>cD\<close>, as it was, for every state, sender
  and payload (also when \<^verbatim>\<open>msg.to\<close> throws).
\<close>

theorem relay_events_frame:
  "fst (echo_from_Client_to_Server s c msg) = s \<and>
   fst (echo_from_Host_to_Server s c msg) = s \<and>
   fst (signaling_message s c msg) = s \<and>
   fst (client_mK_event s c msg) = s \<and>
   fst (command_from_host_to_all_clients s c msg) = s"
  by (simp add: echo_from_Client_to_Server_def echo_from_Host_to_Server_def
      signaling_message_def client_mK_event_def command_from_host_to_all_clients_def
      Let_def split: sum.split)

section \<open>Minting names\<close>

lemma mintName_spec:
  "nameIndex_v < mintName nameIndex_v m \<and>
   \<not> nameInUse (Str (''u'' @ show_nat (mintName nameIndex_v m))) m \<and>
   (\<forall>k. nameIndex_v < k \<and> k < mintName nameIndex_v m \<longrightarrow> nameInUse (Str (''u'' @ show_nat k)) m)"
proof (induction nameIndex_v m rule: mintName.induct)
  case (1 i m)
  show ?case
  proof (cases "nameInUse (Str (''u'' @ show_nat (i + 1))) m")
    case True
    then have eq: "mintName i m = mintName (i + 1) m"
      by (simp add: mintName.simps[of i] Let_def)
    from 1[OF refl True] have ih: "i + 1 < mintName (i + 1) m"
      "\<not> nameInUse (Str (''u'' @ show_nat (mintName (i + 1) m))) m"
      "\<forall>k. i + 1 < k \<and> k < mintName (i + 1) m \<longrightarrow> nameInUse (Str (''u'' @ show_nat k)) m"
      by simp_all
    have "\<forall>k. i < k \<and> k < mintName (i + 1) m \<longrightarrow> nameInUse (Str (''u'' @ show_nat k)) m"
    proof (intro allI impI)
      fix k assume k: "i < k \<and> k < mintName (i + 1) m"
      show "nameInUse (Str (''u'' @ show_nat k)) m"
      proof (cases "k = i + 1")
        case True
        with \<open>nameInUse (Str (''u'' @ show_nat (i + 1))) m\<close> show ?thesis by simp
      next
        case False
        with k have "i + 1 < k \<and> k < mintName (i + 1) m" by simp
        with ih(3) show ?thesis by blast
      qed
    qed
    with ih eq show ?thesis by simp
  next
    case False
    then have eq: "mintName i m = i + 1"
      by (simp add: mintName.simps[of i] Let_def)
    with False show ?thesis by auto
  qed
qed

lemma connection_normal_userName:
  "auth_mode a = Str ''normal'' \<Longrightarrow>
   obj_get (userName (cD (fst (connection s c a)))) c
     = Str (''u'' @ show_nat (mintName (nameIndex (cD s)) (userName (cD s))))"
  by (simp add: connection_def Let_def sock_put_def obj_get_set split: sum.splits)

lemma connection_normal_idm:
  "auth_mode a = Str ''normal'' \<Longrightarrow>
   obj_get (idm (cD (fst (connection s c a))))
     (''u'' @ show_nat (mintName (nameIndex (cD s)) (userName (cD s)))) = Str c"
  by (simp add: connection_def Let_def sock_put_def obj_get_set split: sum.splits)

lemma connection_normal_returns:
  "auth_mode a = Str ''normal'' \<Longrightarrow> snd (snd (connection s c a)) = None"
  by (simp add: connection_def Let_def sock_put_def split: sum.splits)

section \<open>What each handler does to the registry\<close>

lemma socket_disconnect_removed:
  "socket_disconnect (s\<lparr>cD := removeUserFromMaps (cD s) c\<rparr>) c
     = (s\<lparr>cD := removeUserFromMaps (cD s) c\<rparr>, [SocketDisconnect c], None)"
  by (simp add: socket_disconnect_def disconnect_def userName_removed)

lemma cD_sock_put: "cD (sock_put s c k) = cD s"
  by (simp add: sock_put_def)

lemma cD_disconnect:
  "cD (fst (disconnect s c)) =
     (if truthy (obj_get (userName (cD s)) c) then removeUserFromMaps (cD s) c else cD s)"
  by (simp add: disconnect_def Let_def)

lemma cD_okDisconnectMe: "cD (fst (okDisconnectMe s c msg)) = removeUserFromMaps (cD s) c"
  by (simp add: okDisconnectMe_def Let_def socket_disconnect_removed)

lemma cD_logoffTimer_callback:
  "cD (fst (logoffTimer_callback s c)) =
     (if js_eq (Str c) (obj_get (hostID (cD s)) (to_str (obj_get (room (cD s)) c))) \<and>
         (length (obj_keys (userName (cD s))) = 1 \<or> 180 \<le> idleTime_m (sock_of s c))
      then removeUserFromMaps (cD s) c else cD s)"
  by (simp add: logoffTimer_callback_def Let_def socket_disconnect_removed cD_sock_put)

lemma cD_roomJoin:
  "cD (fst (roomJoin s c msg)) =
     (let r = setDefault (roomName msg) Null; hc = setDefault (hostOrClient msg) (Str ''client'')
      in if hc = Str ''client'' then
           (if truthy (obj_get (hostID (cD s)) (to_str r))
            then (cD s)\<lparr>room := obj_set (room (cD s)) c r\<rparr> else cD s)
         else if hc = Str ''host'' then
           (if truthy (obj_get (hostID (cD s)) (to_str r)) then cD s
            else (cD s)\<lparr>room := obj_set (room (cD s)) c r,
                        hostID := obj_set (hostID (cD s)) (to_str r) (Str c)\<rparr>)
         else cD s)"
  by (simp add: roomJoin_def Let_def js_eq_Str obj_get_set)

lemma cD_relay:
  "cD (fst (echo_from_Client_to_Server s c msg)) = cD s"
  "cD (fst (echo_from_Host_to_Server s c msg)) = cD s"
  "cD (fst (signaling_message s c msg)) = cD s"
  "cD (fst (client_mK_event s c msg)) = cD s"
  "cD (fst (command_from_host_to_all_clients s c msg)) = cD s"
  "cD (fst (clientDisconnectByHost s c msg)) = cD s"
  "cD (fst (shutDown_p2p_deleteClient s c msg)) = cD s"
  "cD (fst (warningTimer_callback s c t)) = cD s"
  "cD (fst (chat_message s c msg n)) = cD s"
  "cD (fst (chat_message_but_not_me s c msg)) = cD s"
  by (simp_all add: echo_from_Client_to_Server_def echo_from_Host_to_Server_def
      signaling_message_def client_mK_event_def command_from_host_to_all_clients_def
      clientDisconnectByHost_def shutDown_p2p_deleteClient_def warningTimer_callback_def
      chat_message_def chat_message_but_not_me_def sock_put_def
      Let_def split: sum.split)

text \<open>Every event leaves the registry as it is, removes one socket, or is a connection or a room join.\<close>

lemma handle_cD_cases:
  "cD (fst (handle s e)) = cD s \<or>
   (\<exists>c. cD (fst (handle s e)) = removeUserFromMaps (cD s) c) \<or>
   (\<exists>c msg. cD (fst (handle s e)) = cD (fst (roomJoin s c msg))) \<or>
   (\<exists>c a. e = Connection c a \<and> cD (fst (handle s e)) = cD (fst (connection s c a)))"
proof (cases e)
  case (Disconnect c)
  then show ?thesis by (auto simp: cD_disconnect)
next
  case (OkDisconnectMe c msg)
  then show ?thesis by (auto simp: cD_okDisconnectMe)
next
  case (LogoffTimerFires c)
  then show ?thesis
    by (auto simp: cD_logoffTimer_callback cD_sock_put split: option.splits)
next
  case (WarningTimerFires c)
  then show ?thesis
    by (auto simp: cD_relay cD_sock_put split: option.splits)
qed (auto simp: cD_relay)

section \<open>The name counter\<close>

lemma nameIndex_removeUserFromMaps: "nameIndex (removeUserFromMaps d c) = nameIndex d"
  by (simp add: removeUserFromMaps_def Let_def)

lemma nameIndex_roomJoin: "nameIndex (cD (fst (roomJoin s c msg))) = nameIndex (cD s)"
  by (simp add: cD_roomJoin Let_def)

lemma connection_nameIndex:
  "nameIndex (cD (fst (connection s c a))) =
     (if auth_mode a = Str ''normal'' then mintName (nameIndex (cD s)) (userName (cD s))
      else nameIndex (cD s))"
  by (simp add: connection_def Let_def sock_put_def js_eq_Str split: sum.splits)

lemma handle_nameIndex_mono: "nameIndex (cD s) \<le> nameIndex (cD (fst (handle s e)))"
  using handle_cD_cases[of s e] mintName_spec[of "nameIndex (cD s)" "userName (cD s)"]
  by (auto simp: nameIndex_removeUserFromMaps nameIndex_roomJoin connection_nameIndex
      simp del: handle.simps)

lemma handle_nameIndex_same:
  "(\<forall>c a. e = Connection c a \<longrightarrow> auth_mode a \<noteq> Str ''normal'') \<Longrightarrow>
   nameIndex (cD (fst (handle s e))) = nameIndex (cD s)"
  using handle_cD_cases[of s e]
  by (auto simp: nameIndex_removeUserFromMaps nameIndex_roomJoin connection_nameIndex
      simp del: handle.simps)

lemma run_nameIndex_mono: "nameIndex (cD s) \<le> nameIndex (cD (run s es))"
proof (induction es arbitrary: s)
  case Nil
  then show ?case by simp
next
  case (Cons e es)
  obtain s' out r where h: "handle s e = (s', out, r)"
    by (cases "handle s e") auto
  have m: "nameIndex (cD s) \<le> nameIndex (cD s')"
    using handle_nameIndex_mono[of s e] h by simp
  show ?case
  proof (cases r)
    case None
    with h Cons[of s'] m show ?thesis by simp
  next
    case (Some err)
    with h m show ?thesis by simp
  qed
qed

text \<open>
  C7, as the claim states it, fails on two points. The counter is not advanced past every
  name in use: with \<open>u1\<close>, \<open>u2\<close> and \<open>u4\<close> registered and the counter at 0, a connection in
  mode \<^verbatim>\<open>normal\<close> leaves the counter at 3 while \<open>u4\<close> is in use. The minted name is not
  the first unused name: after \<open>u1\<close> was given up, with the counter at 2, the next
  connection gets \<open>u3\<close> although \<open>u1\<close> is not in use.
\<close>

theorem mint_identity_counterexample:
  "nameInUse (Str ''u4'') (userName (cD ex_gap)) \<and>
   nameIndex (cD (fst (connection ex_gap ''a'' (auth_normal Undefined)))) = 3 \<and>
   \<not> nameInUse (Str ''u1'') (userName (cD ex_freed)) \<and>
   nameIndex (cD ex_freed) = 2 \<and>
   obj_get (userName (cD (fst (connection ex_freed ''c'' (auth_normal Undefined))))) ''c'' = Str ''u3''"
proof -
  have m: "auth_mode (auth_normal Undefined) = Str ''normal''"
    by (simp add: auth_normal_def)
  have a: "nameInUse (Str ''u4'') (userName (cD ex_gap))"
    unfolding ex_gap_value by simp
  have b: "nameIndex (cD (fst (connection ex_gap ''a'' (auth_normal Undefined)))) = 3"
    unfolding connection_nameIndex ex_gap_value by (simp add: m name_eval)
  have c: "\<not> nameInUse (Str ''u1'') (userName (cD ex_freed))" and d: "nameIndex (cD ex_freed) = 2"
    unfolding ex_freed_value by simp_all
  have e: "obj_get (userName (cD (fst (connection ex_freed ''c'' (auth_normal Undefined))))) ''c'' = Str ''u3''"
    unfolding connection_normal_userName[OF m] ex_freed_value by (simp add: name_eval)
  from a b c d e show ?thesis by blast
qed

text \<open>
  C7 (amended). A connection in mode \<^verbatim>\<open>normal\<close> returns without an exception, with the
  counter advanced from its old value \<open>n\<close> to the least \<open>N\<close> above \<open>n\<close> for which \<open>u<N>\<close> is
  not in use: every \<open>u<k>\<close> with \<open>n < k < N\<close> is in use, the minted name \<open>u<N>\<close> is not, and
  it becomes the name of the socket in both maps. The loop is \<open>mintName\<close>, a total function
  (its termination is proved for every map). No event ever decreases the counter, and
  every event other than a connection in mode \<^verbatim>\<open>normal\<close> (a re-connect among them)
  leaves it as it is.
\<close>

theorem mint_identity_fresh:
  "(auth_mode a = Str ''normal'' \<longrightarrow>
      snd (snd (connection s c a)) = None \<and>
      nameIndex (cD s) < nameIndex (cD (fst (connection s c a))) \<and>
      obj_get (userName (cD (fst (connection s c a)))) c
        = Str (''u'' @ show_nat (nameIndex (cD (fst (connection s c a))))) \<and>
      obj_get (idm (cD (fst (connection s c a))))
          (''u'' @ show_nat (nameIndex (cD (fst (connection s c a))))) = Str c \<and>
      \<not> nameInUse (Str (''u'' @ show_nat (nameIndex (cD (fst (connection s c a)))))) (userName (cD s)) \<and>
      (\<forall>k. nameIndex (cD s) < k \<and> k < nameIndex (cD (fst (connection s c a)))
          \<longrightarrow> nameInUse (Str (''u'' @ show_nat k)) (userName (cD s)))) \<and>
   nameIndex (cD s) \<le> nameIndex (cD (fst (handle s e))) \<and>
   ((\<forall>c' a'. e = Connection c' a' \<longrightarrow> auth_mode a' \<noteq> Str ''normal'')
      \<longrightarrow> nameIndex (cD (fst (handle s e))) = nameIndex (cD s))"
  using mintName_spec[of "nameIndex (cD s)" "userName (cD s)"]
    handle_nameIndex_mono[of s e] handle_nameIndex_same[of e s] connection_normal_idm[of a s c]
  by (simp add: connection_nameIndex connection_normal_userName connection_normal_returns)

theorem mint_identity_fresh_witness:
  "nameIndex (cD (fst (connection ex_claimed ''b'' (auth_normal Undefined)))) = 2 \<and>
   obj_get (userName (cD (fst (connection ex_claimed ''b'' (auth_normal Undefined))))) ''b'' = Str ''u2'' \<and>
   \<not> nameInUse (Str ''u2'') (userName (cD ex_claimed)) \<and>
   nameIndex (cD (fst (handle ex_claimed (Connection ''c'' (auth_reconnect (Str ''u1'') Undefined)))))
     = nameIndex (cD ex_claimed)"
proof -
  have h: "auth_mode (auth_normal Undefined) = Str ''normal''"
    by (simp add: auth_normal_def)
  have n: "nameIndex (cD (fst (connection ex_claimed ''b'' (auth_normal Undefined)))) = 2"
    unfolding ex_claimed_value by (simp add: connection_nameIndex auth_normal_def name_eval)
  have d: "show_nat 2 = ''2''"
    by (simp add: name_eval)
  have e: "\<forall>c' a'. Connection ''c'' (auth_reconnect (Str ''u1'') Undefined) = Connection c' a'
      \<longrightarrow> auth_mode a' \<noteq> Str ''normal''"
    by (simp add: auth_reconnect_def)
  from mint_identity_fresh[where a = "auth_normal Undefined" and s = ex_claimed and c = "''b''"
      and e = "Connection ''c'' (auth_reconnect (Str ''u1'') Undefined)"] h e
  show ?thesis
    by (simp add: n d)
qed

section \<open>One host per room\<close>

lemma run_invariant:
  assumes step: "\<And>s e. P (cD s) \<Longrightarrow> P (cD (fst (handle s e)))"
  shows "P (cD s) \<Longrightarrow> P (cD (run s es))"
proof (induction es arbitrary: s)
  case Nil
  then show ?case by simp
next
  case (Cons e es)
  obtain s' out r where h: "handle s e = (s', out, r)"
    by (cases "handle s e") auto
  from step[OF Cons.prems, of e] h have p: "P (cD s')" by simp
  show ?case
  proof (cases r)
    case None
    with h Cons.IH[OF p] show ?thesis by simp
  next
    case (Some err)
    with h p show ?thesis by simp
  qed
qed

lemma hostID_removeUserFromMaps:
  "hostID (removeUserFromMaps d c) =
     (if obj_get (hostID d) (to_str (obj_get (room d) c)) = Str c
      then obj_delete (hostID d) (to_str (obj_get (room d) c)) else hostID d)"
  by (simp add: removeUserFromMaps_def Let_def js_eq_Str)

lemma hostID_roomJoin:
  "hostID (cD (fst (roomJoin s c msg))) =
     (if setDefault (hostOrClient msg) (Str ''client'') = Str ''host'' \<and>
         \<not> truthy (obj_get (hostID (cD s)) (to_str (setDefault (roomName msg) Null)))
      then obj_set (hostID (cD s)) (to_str (setDefault (roomName msg) Null)) (Str c)
      else hostID (cD s))"
  by (simp add: cD_roomJoin Let_def)

lemma hostID_connection: "hostID (cD (fst (connection s c a))) = hostID (cD s)"
  by (simp add: connection_def Let_def sock_put_def split: sum.splits)

lemma hostID_distinct_step:
  "distinct (obj_keys (hostID (cD s))) \<Longrightarrow> distinct (obj_keys (hostID (cD (fst (handle s e)))))"
  using handle_cD_cases[of s e]
  by (auto simp: hostID_removeUserFromMaps hostID_roomJoin hostID_connection
      distinct_keys_set distinct_keys_delete simp del: handle.simps)

lemma hostID_distinct_run:
  "distinct (obj_keys (hostID (cD (run server_init es))))"
proof (rule run_invariant[where P = "\<lambda>d. distinct (obj_keys (hostID d))"])
  show "distinct (obj_keys (hostID (cD server_init)))"
    by (simp add: server_init_def cD_init_def obj_keys_def)
qed (rule hostID_distinct_step)

lemma distinct_keys_one: "distinct (obj_keys m) \<Longrightarrow> length (filter (\<lambda>p. fst p = R) m) \<le> 1"
proof (induction m)
  case Nil
  then show ?case by simp
next
  case (Cons p m)
  show ?case
  proof (cases "fst p = R")
    case True
    from Cons.prems have "fst p \<notin> fst ` set m"
      by (simp add: obj_keys_def)
    with True have "\<forall>q \<in> set m. fst q \<noteq> R"
      by (metis imageI)
    then have "filter (\<lambda>q. fst q = R) m = []"
      by (simp add: filter_empty_conv)
    with True show ?thesis by simp
  next
    case False
    with Cons show ?thesis by (simp add: obj_keys_def)
  qed
qed

lemma host_slot_step:
  assumes "truthy (obj_get (hostID (cD s)) R)"
  shows "obj_get (hostID (cD (fst (handle s e)))) R = obj_get (hostID (cD s)) R \<or>
         obj_get (hostID (cD (fst (handle s e)))) R = Undefined"
  using handle_cD_cases[of s e] assms
  by (auto simp: hostID_removeUserFromMaps hostID_roomJoin hostID_connection
      obj_get_set obj_get_delete simp del: handle.simps split: if_splits)

lemma host_join_refused:
  assumes "hostOrClient msg = Str ''host''"
    and "truthy (obj_get (hostID (cD s)) (to_str (setDefault (roomName msg) Null)))"
  shows "roomJoin s c msg =
     (s, [Emit (ToId (PStr c)) ''room-joining-message''
            (PObj [(''message'', PStr (''Sorry, there is already a host for room ''
                      @ to_str (setDefault (roomName msg) Null) @ ''.'')),
                   (''userName'', pv (obj_get (userName (cD s)) c))])], None)"
  using assms by (simp add: roomJoin_def Let_def setDefault_def)

text \<open>
  C1. In every state a run of events reaches from the start, \<^verbatim>\<open>cD.hostID\<close> has at most one
  entry for a room name \<open>R\<close>. No event replaces a recorded host by another: after any event
  the slot of \<open>R\<close> holds the same host or none. A \<^verbatim>\<open>roomJoin\<close> as host of a room whose slot
  holds a host sends the one advisory \<^verbatim>\<open>Sorry, there is already a host for room R.\<close> to the
  sender and returns the state it was given: no map, membership or timer changes and the
  socket joins no room.
\<close>

theorem one_host_per_room:
  "length (filter (\<lambda>p. fst p = R) (hostID (cD (run server_init es)))) \<le> 1 \<and>
   (truthy (obj_get (hostID (cD s)) R) \<longrightarrow>
      obj_get (hostID (cD (fst (handle s e)))) R = obj_get (hostID (cD s)) R \<or>
      obj_get (hostID (cD (fst (handle s e)))) R = Undefined) \<and>
   (hostOrClient msg = Str ''host'' \<and>
    truthy (obj_get (hostID (cD s)) (to_str (setDefault (roomName msg) Null))) \<longrightarrow>
      roomJoin s c msg =
        (s, [Emit (ToId (PStr c)) ''room-joining-message''
               (PObj [(''message'', PStr (''Sorry, there is already a host for room ''
                         @ to_str (setDefault (roomName msg) Null) @ ''.'')),
                      (''userName'', pv (obj_get (userName (cD s)) c))])], None))"
  using distinct_keys_one[OF hostID_distinct_run, of R es] host_slot_step[of s R e]
    host_join_refused[of msg s c]
  by blast

theorem one_host_per_room_witness:
  "length (filter (\<lambda>p. fst p = ''r'') (hostID (cD ex_room))) \<le> 1 \<and>
   roomJoin ex_room ''b'' (join_msg ''r'' ''host'') =
     (ex_room, [Emit (ToId (PStr ''b'')) ''room-joining-message''
        (PObj [(''message'', PStr ''Sorry, there is already a host for room r.''),
               (''userName'', PStr ''u2'')])], None) \<and>
   obj_get (hostID (cD (fst (handle ex_room (RoomJoin ''b'' (join_msg ''r'' ''host'')))))) ''r'' = Str ''a''"
proof -
  have h1: "truthy (obj_get (hostID (cD ex_room)) ''r'')"
    unfolding ex_room_value by (simp add: obj_eval)
  have h2: "hostOrClient (join_msg ''r'' ''host'') = Str ''host'' \<and>
    truthy (obj_get (hostID (cD ex_room)) (to_str (setDefault (roomName (join_msg ''r'' ''host'')) Null)))"
    unfolding ex_room_value by (simp add: obj_eval join_msg_def setDefault_def)
  have v: "to_str (setDefault (roomName (join_msg ''r'' ''host'')) Null) = ''r''"
    "obj_get (userName (cD ex_room)) ''b'' = Str ''u2''"
    "obj_get (hostID (cD ex_room)) ''r'' = Str ''a''"
    unfolding ex_room_value by (simp_all add: obj_eval join_msg_def setDefault_def)
  note t = one_host_per_room[where R = "''r''" and s = ex_room and c = "''b''"
      and msg = "join_msg ''r'' ''host''" and e = "RoomJoin ''b'' (join_msg ''r'' ''host'')"
      and es = "[Connection ''a'' (auth_normal Undefined), RoomJoin ''a'' (join_msg ''r'' ''host''),
      Connection ''b'' (auth_normal Undefined), RoomJoin ''b'' (join_msg ''r'' ''client'')]",
      folded ex_room_def]
  from t have a: "length (filter (\<lambda>p. fst p = ''r'') (hostID (cD ex_room))) \<le> 1"
    by blast
  from t h2 have b: "roomJoin ex_room ''b'' (join_msg ''r'' ''host'') =
     (ex_room, [Emit (ToId (PStr ''b'')) ''room-joining-message''
        (PObj [(''message'', PStr ''Sorry, there is already a host for room r.''),
               (''userName'', PStr ''u2'')])], None)"
    by (simp add: v)
  from b have c: "obj_get (hostID (cD (fst (handle ex_room (RoomJoin ''b'' (join_msg ''r'' ''host'')))))) ''r'' = Str ''a''"
    by (simp add: v)
  from a b c show ?thesis by blast
qed

section \<open>Display names\<close>

lemma connection_names:
  assumes "assigned_name s a = Str n"
  shows "userName (cD (fst (connection s c a))) = obj_set (userName (cD s)) c (Str n)"
    and "idm (cD (fst (connection s c a))) = obj_set (idm (cD s)) n (Str c)"
    and "snd (snd (connection s c a)) = None"
  using assms
  by (auto simp: connection_def assigned_name_def Let_def sock_put_def js_eq_Str
      split: sum.splits if_splits)

lemma names_inv_cong:
  "userName d = userName d' \<Longrightarrow> idm d = idm d' \<Longrightarrow> names_inv d = names_inv d'"
  by (simp add: names_inv_def)

lemma names_inv_add:
  assumes inv: "names_inv d" and fresh: "c \<notin> set (obj_keys (userName d))"
    and unused: "\<not> nameInUse (Str n) (userName d)"
  shows "names_inv (d\<lparr>userName := obj_set (userName d) c (Str n), idm := obj_set (idm d) n (Str c)\<rparr>)"
proof -
  from fresh have app: "obj_set (userName d) c (Str n) = userName d @ [(c, Str n)]"
    by (simp add: obj_set_def obj_keys_def update_fresh)
  from unused have nv: "Str n \<notin> set (obj_values (userName d))"
    by (simp add: nameInUse_values)
  have k: "distinct (obj_keys (obj_set (userName d) c (Str n)))"
    using inv fresh by (simp add: app names_inv_def obj_keys_def)
  have v: "distinct (obj_values (obj_set (userName d) c (Str n)))"
    using inv nv by (simp add: app names_inv_def obj_values_def)
  have fc: "obj_get (userName d) c = Undefined"
    using fresh by (rule obj_get_absent)
  have un: "\<And>c'. obj_get (userName d) c' \<noteq> Str n"
    using nv obj_get_value by blast
  have b: "\<forall>c' n'. obj_get (obj_set (userName d) c (Str n)) c' = Str n'
      \<longleftrightarrow> obj_get (obj_set (idm d) n (Str c)) n' = Str c'"
  proof (intro allI)
    fix c' n'
    from inv have B: "obj_get (userName d) c' = Str n' \<longleftrightarrow> obj_get (idm d) n' = Str c'"
      by (simp add: names_inv_def)
    show "obj_get (obj_set (userName d) c (Str n)) c' = Str n'
      \<longleftrightarrow> obj_get (obj_set (idm d) n (Str c)) n' = Str c'"
      using B fc un[of c'] by (auto simp: obj_get_set)
  qed
  from k v b show ?thesis
    by (simp add: names_inv_def)
qed


lemma userName_removeUserFromMaps: "userName (removeUserFromMaps d c) = obj_delete (userName d) c"
  by (simp add: removeUserFromMaps_def Let_def)

lemma idm_removeUserFromMaps:
  "idm (removeUserFromMaps d c) = obj_delete (idm d) (to_str (obj_get (userName d) c))"
  by (simp add: removeUserFromMaps_def Let_def)

lemma names_inv_remove:
  assumes inv: "names_inv d" and named: "obj_get (userName d) c = Str n"
  shows "names_inv (removeUserFromMaps d c)"
proof -
  have k: "distinct (obj_keys (obj_delete (userName d) c))"
    using inv by (simp add: names_inv_def obj_keys_def obj_delete_def distinct_delete)
  have v: "distinct (obj_values (obj_delete (userName d) c))"
    using inv by (simp add: names_inv_def obj_values_def obj_delete_def AList.delete_eq distinct_map_filter)
  have b: "\<forall>c' n'. obj_get (obj_delete (userName d) c) c' = Str n'
      \<longleftrightarrow> obj_get (obj_delete (idm d) n) n' = Str c'"
  proof (intro allI)
    fix c' n'
    from inv have B: "\<And>x y. obj_get (userName d) x = Str y \<longleftrightarrow> obj_get (idm d) y = Str x"
      by (simp add: names_inv_def)
    show "obj_get (obj_delete (userName d) c) c' = Str n'
      \<longleftrightarrow> obj_get (obj_delete (idm d) n) n' = Str c'"
      using B[of c' n'] B[of c n] B[of c n'] B[of c' n] named
      by (auto simp: obj_get_delete)
  qed
  from k v b named show ?thesis
    by (simp add: names_inv_def userName_removeUserFromMaps idm_removeUserFromMaps)
qed

lemma conn_ok_step:
  assumes "names_inv (cD s)" and "conn_ok s e"
  shows "names_inv (cD (fst (handle s e))) \<and> snd (snd (handle s e)) = None"
proof (cases e)
  case (Connection c a)
  with assms(2) have fresh: "c \<notin> set (obj_keys (userName (cD s)))" by simp
  from Connection assms(2) obtain n where n: "assigned_name s a = Str n"
    and unused: "\<not> nameInUse (Str n) (userName (cD s))"
    using mintName_spec[of "nameIndex (cD s)" "userName (cD s)"]
    by (auto simp: assigned_name_def split: jsval.splits)
  have "names_inv (cD (fst (connection s c a))) =
      names_inv ((cD s)\<lparr>userName := obj_set (userName (cD s)) c (Str n),
                           idm := obj_set (idm (cD s)) n (Str c)\<rparr>)"
    by (rule names_inv_cong) (simp_all add: connection_names[OF n])
  with names_inv_add[OF assms(1) fresh unused] connection_names(3)[OF n, of c] Connection
  show ?thesis by simp
next
  case (Disconnect c)
  show ?thesis
  proof (cases "truthy (obj_get (userName (cD s)) c)")
    case True
    then obtain n where "obj_get (userName (cD s)) c = Str n"
      using truthy_Str by blast
    with assms(1) True Disconnect show ?thesis
      by (simp add: cD_disconnect names_inv_remove disconnect_def Let_def)
  next
    case False
    with assms(1) Disconnect show ?thesis
      by (simp add: disconnect_def)
  qed
qed (use assms(2) in simp_all)

lemma conn_seq_run:
  "names_inv (cD s) \<Longrightarrow> conn_seq_ok s es \<Longrightarrow> names_inv (cD (run s es))"
proof (induction es arbitrary: s)
  case Nil
  then show ?case by simp
next
  case (Cons e es)
  from Cons.prems have ok: "conn_ok s e" and rest: "conn_seq_ok (fst (handle s e)) es"
    by simp_all
  from conn_ok_step[OF Cons.prems(1) ok]
  have i: "names_inv (cD (fst (handle s e)))" and r: "snd (snd (handle s e)) = None"
    by simp_all
  from r have "run s (e # es) = run (fst (handle s e)) es"
    by (cases "handle s e") auto
  with Cons.IH[OF i rest] show ?case by simp
qed

lemma names_inv_init: "names_inv (cD server_init)"
  by (simp add: names_inv_def server_init_def cD_init_def obj_keys_def obj_values_def obj_get_def)

text \<open>
  C2, as the claim states it, fails: a re-connect may hint the name of a connection that
  is still registered, and the handler stores it. After socket \<open>a\<close> got \<open>u1\<close> and socket
  \<open>c\<close> re-connected as \<open>u1\<close>, two connections have the same display name, and
  \<^verbatim>\<open>cD.id\<close> maps \<open>u1\<close> to \<open>c\<close> only.
\<close>

theorem display_names_counterexample:
  "\<not> distinct (obj_values (userName (cD ex_dup))) \<and>
   obj_get (userName (cD ex_dup)) ''a'' = Str ''u1'' \<and>
   obj_get (idm (cD ex_dup)) ''u1'' = Str ''c''"
  unfolding ex_dup_value by (simp add: obj_eval)

text \<open>
  C2 (amended). At every point of every sequence of connection events (connects in mode
  \<^verbatim>\<open>normal\<close>, re-connects that hint a name no registered connection holds, and
  disconnects, every new connection with a socket id that is not registered), the display
  names of the registered connections are pairwise distinct, and \<^verbatim>\<open>cD.userName\<close> and
  \<^verbatim>\<open>cD.id\<close> are inverse to each other.
\<close>

theorem display_names_unique:
  assumes "conn_seq_ok server_init es"
  shows "distinct (obj_values (userName (cD (run server_init es)))) \<and>
    (\<forall>c n. obj_get (userName (cD (run server_init es))) c = Str n
        \<longleftrightarrow> obj_get (idm (cD (run server_init es))) n = Str c)"
  using conn_seq_run[OF names_inv_init assms] by (simp add: names_inv_def)

theorem display_names_unique_witness:
  "distinct (obj_values (userName (cD (run server_init ex_conn_events)))) \<and>
   obj_get (idm (cD (run server_init ex_conn_events))) ''u7'' = Str ''b''"
proof -
  have h: "conn_seq_ok server_init ex_conn_events"
    by (simp add: ex_conn_events_def connection_def disconnect_def removeUserFromMaps_def
      setDisplayName_def state_eval obj_eval name_eval)
  have u: "obj_get (userName (cD (run server_init ex_conn_events))) ''b'' = Str ''u7''"
    unfolding ex_conn_events_value by (simp add: obj_eval)
  from display_names_unique[OF h] u show ?thesis
    by blast
qed

text \<open>
  C3, as the claim states it, fails: the handler has no conflict check. Socket \<open>a\<close> is
  registered as \<open>u1\<close>; the re-connect of socket \<open>c\<close> under \<open>u1\<close> raises nothing and
  changes \<^verbatim>\<open>cD.id\<close>, whose entry for \<open>u1\<close> pointed to \<open>a\<close>.
\<close>

theorem reconnect_conflict_counterexample:
  "obj_get (idm (cD ex_one)) ''u1'' = Str ''a'' \<and>
   snd (snd (connection ex_one ''c'' (auth_reconnect (Str ''u1'') Undefined))) = None \<and>
   idm (cD (fst (connection ex_one ''c'' (auth_reconnect (Str ''u1'') Undefined)))) \<noteq> idm (cD ex_one)"
  unfolding ex_one_value by (simp add: connection_def state_eval obj_eval)

text \<open>
  C3 (amended). A re-connect that supplies a display name registered to a different
  connection is accepted without an error: the new connection is registered under that
  name, the entry of the name in \<^verbatim>\<open>cD.id\<close> is overwritten with the new socket id, and the
  other connection keeps the name in \<^verbatim>\<open>cD.userName\<close>.
\<close>

theorem reconnect_overwrites_binding:
  assumes "auth_mode a = Str ''re-connect''" and "auth_currentName a = Str n"
    and "obj_get (userName (cD s)) d = Str n" and "obj_get (idm (cD s)) n = Str d" and "d \<noteq> c"
  shows "snd (snd (connection s c a)) = None \<and>
    obj_get (idm (cD (fst (connection s c a)))) n = Str c \<and>
    obj_get (userName (cD (fst (connection s c a)))) c = Str n \<and>
    obj_get (userName (cD (fst (connection s c a)))) d = Str n"
proof -
  from assms(1,2) have n: "assigned_name s a = Str n"
    by (simp add: assigned_name_def)
  from assms(3,5) show ?thesis
    by (simp add: connection_names[OF n] obj_get_set)
qed

theorem reconnect_overwrites_binding_witness:
  "obj_get (idm (cD (fst (connection ex_room ''c'' (auth_reconnect (Str ''u2'') Undefined))))) ''u2'' = Str ''c'' \<and>
   obj_get (userName (cD (fst (connection ex_room ''c'' (auth_reconnect (Str ''u2'') Undefined))))) ''b'' = Str ''u2''"
proof -
  have h: "auth_mode (auth_reconnect (Str ''u2'') Undefined) = Str ''re-connect''"
    "auth_currentName (auth_reconnect (Str ''u2'') Undefined) = Str ''u2''"
    by (simp_all add: auth_reconnect_def)
  have g: "obj_get (userName (cD ex_room)) ''b'' = Str ''u2''"
    "obj_get (idm (cD ex_room)) ''u2'' = Str ''b''"
    unfolding ex_room_value by (simp_all add: obj_eval)
  have ne: "''b'' \<noteq> ''c''"
    by simp
  from reconnect_overwrites_binding[OF h g ne] show ?thesis
    by blast
qed

section \<open>What a disconnect leaves behind\<close>

lemma removeUserFromMaps_removes:
  "c \<notin> set (obj_keys (userName (removeUserFromMaps d c))) \<and>
   c \<notin> set (obj_keys (room (removeUserFromMaps d c))) \<and>
   to_str (obj_get (userName d) c) \<notin> set (obj_keys (idm (removeUserFromMaps d c))) \<and>
   obj_get (hostID (removeUserFromMaps d c)) (to_str (obj_get (room d) c)) \<noteq> Str c"
  by (simp add: removeUserFromMaps_def Let_def obj_keys_delete obj_get_delete js_eq_Str)

lemma removeUserFromMaps_nick_team:
  "nickName (removeUserFromMaps d c) =
     (if truthy (obj_get (nickName d) c) then obj_delete (nickName d) c else nickName d) \<and>
   teamName (removeUserFromMaps d c) =
     (if truthy (obj_get (teamName d) c) then obj_delete (teamName d) c else teamName d)"
  by (simp add: removeUserFromMaps_def Let_def)

text \<open>
  C4 does not hold of the code. The connection handler stores \<^verbatim>\<open>null\<close> in
  \<^verbatim>\<open>cD.nickName\<close> and \<^verbatim>\<open>cD.teamName\<close> for a socket without these hints, and
  \<^verbatim>\<open>removeUserFromMaps\<close> deletes the two entries only when they are truthy. Socket \<open>a\<close>
  connects in mode \<^verbatim>\<open>normal\<close> without hints and disconnects: its keys stay in both maps.
\<close>

theorem disconnect_leaves_null_nickname:
  "cD (fst (disconnect ex_one ''a'')) =
     \<lparr>connectionIndex = 1, nameIndex = 1, userName = [], nickName = [(''a'', Null)],
      teamName = [(''a'', Null)], idm = [], room = [], hostID = []\<rparr> \<and>
   ''a'' \<in> set (obj_keys (nickName (cD (fst (disconnect ex_one ''a'')))))"
  unfolding ex_one_value
  by (simp add: disconnect_def removeUserFromMaps_def Let_def obj_eval)

section \<open>The idle timers\<close>

lemma sock_of_put: "sock_of (sock_put s c k) c = k"
  by (simp add: sock_of_def sock_put_def update_conv')

text \<open>A chat message is the traffic that resets the idle budget: both alarms are set anew.\<close>

lemma chat_message_restarts_timers:
  "sock_of (fst (chat_message s c msg n)) c =
     (sock_of s c)\<lparr>warningTimer := Some 40, logoffTimer := Some 40, idleTime_m := 40\<rparr>"
  by (simp add: chat_message_def Let_def sock_of_put setTimer_def)

lemma sock_put_put: "sock_put (sock_put s c k) c k' = sock_put s c k'"
  by (simp add: sock_put_def)



text \<open>What the firing of a pending logoff alarm does, branch by branch.\<close>

lemma logoffTimer_fires:
  assumes "logoffTimer (sock_of s c) = Some t"
  shows "handle s (LogoffTimerFires c) =
    (if obj_get (hostID (cD s)) (to_str (obj_get (room (cD s)) c)) = Str c then
       (if length (obj_keys (userName (cD s))) = 1 \<or> 180 \<le> idleTime_m (sock_of s c) then
          ((sock_put s c ((sock_of s c)\<lparr>logoffTimer := None\<rparr>))\<lparr>cD := removeUserFromMaps (cD s) c\<rparr>,
           [Emit (ToSocket c) ''chat message''
              (PStr (''Idle for '' @ toFixed1 (idleTime_m (sock_of s c))
                 @ '' minutes. Network socket disconnected.''
                 @ ''</br></br>Click <strong>Chat</strong> before disconnection for 40 minutes of network time.''
                 @ ''</br></br>To <strong>reconnect:</strong> hosts click <strong>Create</strong>, clients click <strong>Connect</strong>.'')),
            SocketDisconnect c],
           None)
        else
          (sock_put s c ((sock_of s c)\<lparr>idleTime_m := idleTime_m (sock_of s c) + 5,
                                        warningTimer := None, logoffTimer := Some 5\<rparr>),
           [], None))
     else
       (sock_put s c ((sock_of s c)\<lparr>logoffTimer := None\<rparr>),
        [Emit (ToSocket c) ''chat message''
           (PStr (''Idle for '' @ toFixed1 (idleTime_m (sock_of s c))
              @ '' minutes. Network socket disconnected.'')),
         Emit (ToId (PStr c)) ''disconnectByServer''
           (PObj [(''name'', pv (obj_get (userName (cD s)) c)), (''originator'', PStr ''server'')])],
        None))"
proof -
  let ?s0 = "sock_put s c ((sock_of s c)\<lparr>logoffTimer := None\<rparr>)"
  have h: "handle s (LogoffTimerFires c) = logoffTimer_callback ?s0 c"
    using assms by simp
  have k: "sock_of ?s0 c = (sock_of s c)\<lparr>logoffTimer := None\<rparr>"
    by (rule sock_of_put)
  have d: "cD ?s0 = cD s"
    by (rule cD_sock_put)
  have r: "socket_disconnect (?s0\<lparr>cD := removeUserFromMaps (cD s) c\<rparr>) c
     = (?s0\<lparr>cD := removeUserFromMaps (cD s) c\<rparr>, [SocketDisconnect c], None)"
    using socket_disconnect_removed[of ?s0 c] by (simp add: d)
  show ?thesis
    unfolding h
    by (simp add: logoffTimer_callback_def Let_def k d r js_eq_Str' sock_put_put setTimer_def)
qed




section \<open>Nicknames\<close>

lemma connection_nickName_other:
  "c' \<noteq> c \<Longrightarrow> obj_get (nickName (cD (fst (connection s c a)))) c' = obj_get (nickName (cD s)) c'"
  by (simp add: connection_def Let_def sock_put_def obj_get_set split: sum.splits)

lemma connection_normal_nickName:
  assumes "auth_mode a = Str ''normal''" and "auth_nickName a = Str X" and "X \<noteq> []"
  shows "obj_get (nickName (cD (fst (connection s c a)))) c =
     (if nameInUse (Str X) (nickName (cD s))
      then Str (X @ show_nat (nameIndex (cD (fst (connection s c a))))) else Str X)"
  using assms
  by (simp add: connection_def Let_def sock_put_def obj_get_set setDefault_def split: sum.splits)

text \<open>
  C8, as the claim states it, fails: the suffix is the number of the user name, and a
  re-connect brings its user name along. Sockets \<open>a\<close> and \<open>b\<close> ask for Alice and store
  Alice and Alice2; socket \<open>c\<close> re-connects as \<open>u2\<close>, asks for Alice and stores Alice2 as
  well.
\<close>

theorem nickname_counterexample:
  "obj_get (nickName (cD ex_nick)) ''b'' = Str ''Alice2'' \<and>
   obj_get (nickName (cD ex_nick)) ''c'' = Str ''Alice2''"
  unfolding ex_nick_value by (simp add: obj_eval)

text \<open>
  C8 (amended). Two connections in mode \<^verbatim>\<open>normal\<close> ask for the same non-empty nickname
  \<open>X\<close>, the second after the first and after any events in between that left the stored
  nickname of the first as it was. Then the second registration does not modify the stored
  nickname of the first, the two stored nicknames are distinct, and the second stores \<open>X\<close>
  followed by the number of its user name when \<open>X\<close> is in use at that moment, \<open>X\<close> itself
  otherwise.
\<close>

theorem nickname_disambiguation:
  assumes "c1 \<noteq> c2" and "X \<noteq> []"
    and "auth_mode a1 = Str ''normal''" and "auth_nickName a1 = Str X"
    and "auth_mode a2 = Str ''normal''" and "auth_nickName a2 = Str X"
    and "s1 = fst (connection s0 c1 a1)"
    and "s = run s1 es"
    and "obj_get (nickName (cD s)) c1 = obj_get (nickName (cD s1)) c1"
    and "s2 = fst (connection s c2 a2)"
  shows "obj_get (nickName (cD s2)) c1 = obj_get (nickName (cD s1)) c1 \<and>
    obj_get (nickName (cD s2)) c2 \<noteq> obj_get (nickName (cD s2)) c1 \<and>
    obj_get (nickName (cD s2)) c2 =
      (if nameInUse (Str X) (nickName (cD s)) then Str (X @ show_nat (nameIndex (cD s2))) else Str X)"
proof -
  let ?n1 = "nameIndex (cD s1)" and ?n2 = "nameIndex (cD s2)"
  have first: "obj_get (nickName (cD s1)) c1 = Str X \<or> obj_get (nickName (cD s1)) c1 = Str (X @ show_nat ?n1)"
    using connection_normal_nickName[OF assms(3,4,2), of s0 c1] assms(7) by auto
  have kept: "obj_get (nickName (cD s2)) c1 = obj_get (nickName (cD s1)) c1"
    using connection_nickName_other[of c1 c2 s a2] assms(1,9,10) by simp
  have second: "obj_get (nickName (cD s2)) c2 =
      (if nameInUse (Str X) (nickName (cD s)) then Str (X @ show_nat ?n2) else Str X)"
    using connection_normal_nickName[OF assms(5,6,2), of s c2] assms(10) by simp
  have "?n1 \<le> nameIndex (cD s)"
    using run_nameIndex_mono[of s1 es] assms(8) by simp
  moreover have "nameIndex (cD s) < ?n2"
    using mintName_spec[of "nameIndex (cD s)" "userName (cD s)"] assms(5,10)
    by (simp add: connection_nameIndex)
  ultimately have lt: "?n1 < ?n2" by simp
  then have ne: "show_nat ?n1 \<noteq> show_nat ?n2"
    using show_nat_inj by fastforce
  have differ: "obj_get (nickName (cD s2)) c2 \<noteq> obj_get (nickName (cD s1)) c1"
  proof (cases "obj_get (nickName (cD s1)) c1 = Str X")
    case True
    with assms(9) have "nameInUse (Str X) (nickName (cD s))"
      using nameInUse_stored[of "nickName (cD s)" c1 X] by simp
    with second True show ?thesis
      by (simp add: show_nat_nonempty)
  next
    case False
    with first have "obj_get (nickName (cD s1)) c1 = Str (X @ show_nat ?n1)" by simp
    with second ne show ?thesis
      by (auto simp: show_nat_nonempty)
  qed
  from kept differ second show ?thesis by simp
qed

theorem nickname_disambiguation_witness:
  "obj_get (nickName (cD ex_alice2)) ''a'' = Str ''Alice'' \<and>
   obj_get (nickName (cD ex_alice2)) ''b'' \<noteq> obj_get (nickName (cD ex_alice2)) ''a'' \<and>
   obj_get (nickName (cD ex_alice2)) ''b'' = Str ''Alice2''"
proof -
  have m: "auth_mode (auth_normal (Str ''Alice'')) = Str ''normal''"
    and k: "auth_nickName (auth_normal (Str ''Alice'')) = Str ''Alice''"
    by (simp_all add: auth_normal_def)
  have r: "run ex_alice1 [EchoFromClient ''a'' (PStr ''server'')] = ex_alice1"
    by (simp add: echo_from_Client_to_Server_def)
  have u: "obj_get (nickName (cD (run ex_alice1 [EchoFromClient ''a'' (PStr ''server'')]))) ''a''
      = obj_get (nickName (cD ex_alice1)) ''a''"
    by (simp only: r)
  have ne: "''a'' \<noteq> ''b''" and x: "''Alice'' \<noteq> []"
    by simp_all
  note t = nickname_disambiguation[OF ne x m k m k ex_alice1_def refl u ex_alice2_def]
  have a: "obj_get (nickName (cD ex_alice1)) ''a'' = Str ''Alice''"
    unfolding ex_alice1_value by (simp add: obj_eval)
  have "nameInUse (Str ''Alice'') (nickName (cD ex_alice1))"
    unfolding ex_alice1_value by simp
  then have n: "nameInUse (Str ''Alice'') (nickName (cD (run ex_alice1 [EchoFromClient ''a'' (PStr ''server'')])))"
    by (simp only: r)
  have "nameIndex (cD (fst (connection ex_alice1 ''b'' (auth_normal (Str ''Alice''))))) = 2"
    unfolding ex_alice1_value
    by (simp add: connection_nameIndex auth_normal_def name_eval)
  then have i: "nameIndex (cD ex_alice2) = 2"
    by (simp only: ex_alice2_def r)
  have d: "show_nat 2 = ''2''"
    by (simp add: name_eval)
  from t a n show ?thesis
    by (simp add: i d)
qed

section \<open>The order of a disconnect\<close>

lemma removeUserFromMaps_explicit:
  "removeUserFromMaps d c =
     d\<lparr>hostID := (if obj_get (hostID d) (to_str (obj_get (room d) c)) = Str c
                  then obj_delete (hostID d) (to_str (obj_get (room d) c)) else hostID d),
       idm := obj_delete (idm d) (to_str (obj_get (userName d) c)),
       userName := obj_delete (userName d) c,
       nickName := (if truthy (obj_get (nickName d) c) then obj_delete (nickName d) c else nickName d),
       teamName := (if truthy (obj_get (teamName d) c) then obj_delete (teamName d) c else teamName d),
       room := obj_delete (room d) c\<rparr>"
  by (simp add: removeUserFromMaps_def Let_def js_eq_Str)

lemma okDisconnectMe_result:
  "okDisconnectMe s c msg =
     (s\<lparr>cD := removeUserFromMaps (cD s) c\<rparr>,
      [Emit (ToId (pv (obj_get (hostID (cD s))
                 (to_str (obj_get (room (cD s)) (to_str (obj_get (idm (cD s)) (p_to_str msg))))))))
         ''chat message'' (PStr (p_to_str msg @ '' has disconnected'')),
       Emit (ToId (pv (obj_get (hostID (cD s))
                 (to_str (obj_get (room (cD s)) (to_str (obj_get (idm (cD s)) (p_to_str msg))))))))
         ''client-disconnected'' msg,
       SocketDisconnect c],
      None)"
  by (simp add: okDisconnectMe_def Let_def socket_disconnect_removed)

text \<open>
  C5, as the claim states it, fails: membership of a room does not decide whether the
  disconnect listener runs, the user name does. Socket \<open>x\<close> re-connected without a name and
  joined room \<open>r\<close>, whose host is \<open>a\<close>; at its disconnect nothing is sent to the host and
  no entry of \<open>x\<close> is deleted.
\<close>

theorem disconnect_order_counterexample:
  "obj_get (room (cD ex_nameless_member)) ''x'' = Str ''r'' \<and>
   obj_get (hostID (cD ex_nameless_member)) ''r'' = Str ''a'' \<and>
   disconnect ex_nameless_member ''x'' = (ex_nameless_member, [], None)"
  unfolding ex_nameless_member_value by (simp add: disconnect_def obj_eval)

text \<open>
  C5 (amended). On the disconnect of a socket with a registered (non-empty) user name the
  listener computes the host of the socket's room, the display name and the user name in
  the state before the removal, sends the chat message and the \<^verbatim>\<open>client-disconnected\<close>
  event with the user name to that host, and only then applies \<^verbatim>\<open>removeUserFromMaps\<close>. For
  a socket without a registered user name, also one that belongs to a room, the listener
  sends nothing and deletes nothing. The two other removals keep the order: the
  \<^verbatim>\<open>okDisconnectMe\<close> handler looks the host up in the state before the removal, through
  the name its message carries, sends it the two notifications, then removes the sender
  and disconnects its socket; the eviction of a host by its logoff alarm sends the notice
  to the socket itself, then removes it and disconnects it. \<^verbatim>\<open>removeUserFromMaps\<close> deletes
  the \<^verbatim>\<open>userName\<close> entry of the socket, the \<^verbatim>\<open>id\<close> entry under its name, its \<^verbatim>\<open>room\<close>
  entry, the host slot of its room when the socket is that host, and its nickname and team
  entries when they hold a non-empty string; afterwards the socket has no name and no
  room, its name has no \<^verbatim>\<open>id\<close> entry and the host slot of its former room does not name it.
\<close>

theorem disconnect_reads_before_removal:
  "(truthy (obj_get (userName (cD s)) c) \<longrightarrow>
      disconnect s c =
        (s\<lparr>cD := removeUserFromMaps (cD s) c\<rparr>,
         [Emit (ToId (pv (obj_get (hostID (cD s)) (to_str (obj_get (room (cD s)) c))))) ''chat message''
            (PStr (to_str (setDisplayName (cD s) c ''prens'') @ '' has disconnected..'')),
          Emit (ToId (pv (obj_get (hostID (cD s)) (to_str (obj_get (room (cD s)) c))))) ''client-disconnected''
            (pv (obj_get (userName (cD s)) c))],
         None)) \<and>
   (\<not> truthy (obj_get (userName (cD s)) c) \<longrightarrow> disconnect s c = (s, [], None)) \<and>
   okDisconnectMe s c msg =
     (s\<lparr>cD := removeUserFromMaps (cD s) c\<rparr>,
      [Emit (ToId (pv (obj_get (hostID (cD s))
                 (to_str (obj_get (room (cD s)) (to_str (obj_get (idm (cD s)) (p_to_str msg))))))))
         ''chat message'' (PStr (p_to_str msg @ '' has disconnected'')),
       Emit (ToId (pv (obj_get (hostID (cD s))
                 (to_str (obj_get (room (cD s)) (to_str (obj_get (idm (cD s)) (p_to_str msg))))))))
         ''client-disconnected'' msg,
       SocketDisconnect c],
      None) \<and>
   (logoffTimer (sock_of s c) = Some t \<and>
    obj_get (hostID (cD s)) (to_str (obj_get (room (cD s)) c)) = Str c \<and>
    (obj_keys (userName (cD s)) = [c] \<or> 180 \<le> idleTime_m (sock_of s c)) \<longrightarrow>
      handle s (LogoffTimerFires c) =
        ((sock_put s c ((sock_of s c)\<lparr>logoffTimer := None\<rparr>))\<lparr>cD := removeUserFromMaps (cD s) c\<rparr>,
         [Emit (ToSocket c) ''chat message''
            (PStr (''Idle for '' @ toFixed1 (idleTime_m (sock_of s c))
               @ '' minutes. Network socket disconnected.''
               @ ''</br></br>Click <strong>Chat</strong> before disconnection for 40 minutes of network time.''
               @ ''</br></br>To <strong>reconnect:</strong> hosts click <strong>Create</strong>, clients click <strong>Connect</strong>.'')),
          SocketDisconnect c],
         None)) \<and>
   removeUserFromMaps d c =
     d\<lparr>hostID := (if obj_get (hostID d) (to_str (obj_get (room d) c)) = Str c
                  then obj_delete (hostID d) (to_str (obj_get (room d) c)) else hostID d),
       idm := obj_delete (idm d) (to_str (obj_get (userName d) c)),
       userName := obj_delete (userName d) c,
       nickName := (if truthy (obj_get (nickName d) c) then obj_delete (nickName d) c else nickName d),
       teamName := (if truthy (obj_get (teamName d) c) then obj_delete (teamName d) c else teamName d),
       room := obj_delete (room d) c\<rparr> \<and>
   c \<notin> set (obj_keys (userName (removeUserFromMaps d c))) \<and>
   c \<notin> set (obj_keys (room (removeUserFromMaps d c))) \<and>
   to_str (obj_get (userName d) c) \<notin> set (obj_keys (idm (removeUserFromMaps d c))) \<and>
   obj_get (hostID (removeUserFromMaps d c)) (to_str (obj_get (room d) c)) \<noteq> Str c"
proof -
  have 1: "truthy (obj_get (userName (cD s)) c) \<longrightarrow>
      disconnect s c =
        (s\<lparr>cD := removeUserFromMaps (cD s) c\<rparr>,
         [Emit (ToId (pv (obj_get (hostID (cD s)) (to_str (obj_get (room (cD s)) c))))) ''chat message''
            (PStr (to_str (setDisplayName (cD s) c ''prens'') @ '' has disconnected..'')),
          Emit (ToId (pv (obj_get (hostID (cD s)) (to_str (obj_get (room (cD s)) c))))) ''client-disconnected''
            (pv (obj_get (userName (cD s)) c))],
         None)"
    by (simp add: disconnect_def Let_def)
  have 2: "\<not> truthy (obj_get (userName (cD s)) c) \<longrightarrow> disconnect s c = (s, [], None)"
    by (simp add: disconnect_def)
  have 4: "logoffTimer (sock_of s c) = Some t \<and>
    obj_get (hostID (cD s)) (to_str (obj_get (room (cD s)) c)) = Str c \<and>
    (obj_keys (userName (cD s)) = [c] \<or> 180 \<le> idleTime_m (sock_of s c)) \<longrightarrow>
      handle s (LogoffTimerFires c) =
        ((sock_put s c ((sock_of s c)\<lparr>logoffTimer := None\<rparr>))\<lparr>cD := removeUserFromMaps (cD s) c\<rparr>,
         [Emit (ToSocket c) ''chat message''
            (PStr (''Idle for '' @ toFixed1 (idleTime_m (sock_of s c))
               @ '' minutes. Network socket disconnected.''
               @ ''</br></br>Click <strong>Chat</strong> before disconnection for 40 minutes of network time.''
               @ ''</br></br>To <strong>reconnect:</strong> hosts click <strong>Create</strong>, clients click <strong>Connect</strong>.'')),
          SocketDisconnect c],
         None)"
    using logoffTimer_fires[of s c t] by (auto simp del: handle.simps)
  from 1 2 4 okDisconnectMe_result[of s c msg] removeUserFromMaps_explicit[of d c]
    removeUserFromMaps_removes[of c d]
  show ?thesis by blast
qed

theorem disconnect_reads_before_removal_witness:
  "snd (disconnect ex_room ''b'') =
     ([Emit (ToId (PStr ''a'')) ''chat message'' (PStr ''u2 has disconnected..''),
       Emit (ToId (PStr ''a'')) ''client-disconnected'' (PStr ''u2'')], None) \<and>
   cD (fst (disconnect ex_room ''b'')) =
     \<lparr>connectionIndex = 2, nameIndex = 2, userName = [(''a'', Str ''u1'')],
      nickName = [(''a'', Null), (''b'', Null)], teamName = [(''a'', Null), (''b'', Null)],
      idm = [(''u1'', Str ''a'')], room = [(''a'', Str ''r'')], hostID = [(''r'', Str ''a'')]\<rparr> \<and>
   disconnect ex_room ''zz'' = (ex_room, [], None) \<and>
   snd (handle ex_host_alone (LogoffTimerFires ''a'')) =
     ([Emit (ToSocket ''a'') ''chat message''
         (PStr (''Idle for 40.0 minutes. Network socket disconnected.''
            @ ''</br></br>Click <strong>Chat</strong> before disconnection for 40 minutes of network time.''
            @ ''</br></br>To <strong>reconnect:</strong> hosts click <strong>Create</strong>, clients click <strong>Connect</strong>.'')),
       SocketDisconnect ''a''], None)"
proof -
  have h: "truthy (obj_get (userName (cD ex_room)) ''b'')"
    and g: "\<not> truthy (obj_get (userName (cD ex_room)) ''zz'')"
    unfolding ex_room_value by (simp_all add: obj_eval)
  have v: "obj_get (hostID (cD ex_room)) (to_str (obj_get (room (cD ex_room)) ''b'')) = Str ''a''"
    "setDisplayName (cD ex_room) ''b'' ''prens'' = Str ''u2''"
    "obj_get (userName (cD ex_room)) ''b'' = Str ''u2''"
    unfolding ex_room_value by (simp_all add: obj_eval setDisplayName_def)
  have ph: "logoffTimer (sock_of ex_host_alone ''a'') = Some 40 \<and>
     obj_get (hostID (cD ex_host_alone)) (to_str (obj_get (room (cD ex_host_alone)) ''a'')) = Str ''a'' \<and>
     (obj_keys (userName (cD ex_host_alone)) = [''a''] \<or> 180 \<le> idleTime_m (sock_of ex_host_alone ''a''))"
    unfolding ex_host_alone_value by (simp add: obj_eval sock_of_def)
  have vh: "toFixed1 (idleTime_m (sock_of ex_host_alone ''a'')) = ''40.0''"
    unfolding ex_host_alone_value by (simp add: sock_of_def toFixed1_def name_eval)
  note t1 = disconnect_reads_before_removal[of ex_room "''b''" PNull 0 "cD ex_room"]
  from t1 h
  have e: "disconnect ex_room ''b'' =
        (ex_room\<lparr>cD := removeUserFromMaps (cD ex_room) ''b''\<rparr>,
         [Emit (ToId (pv (obj_get (hostID (cD ex_room)) (to_str (obj_get (room (cD ex_room)) ''b''))))) ''chat message''
            (PStr (to_str (setDisplayName (cD ex_room) ''b'' ''prens'') @ '' has disconnected..'')),
          Emit (ToId (pv (obj_get (hostID (cD ex_room)) (to_str (obj_get (room (cD ex_room)) ''b''))))) ''client-disconnected''
            (pv (obj_get (userName (cD ex_room)) ''b''))],
         None)"
    by blast
  from t1 have x: "removeUserFromMaps (cD ex_room) ''b'' =
     (cD ex_room)\<lparr>hostID := (if obj_get (hostID (cD ex_room)) (to_str (obj_get (room (cD ex_room)) ''b'')) = Str ''b''
                  then obj_delete (hostID (cD ex_room)) (to_str (obj_get (room (cD ex_room)) ''b'')) else hostID (cD ex_room)),
       idm := obj_delete (idm (cD ex_room)) (to_str (obj_get (userName (cD ex_room)) ''b'')),
       userName := obj_delete (userName (cD ex_room)) ''b'',
       nickName := (if truthy (obj_get (nickName (cD ex_room)) ''b'') then obj_delete (nickName (cD ex_room)) ''b'' else nickName (cD ex_room)),
       teamName := (if truthy (obj_get (teamName (cD ex_room)) ''b'') then obj_delete (teamName (cD ex_room)) ''b'' else teamName (cD ex_room)),
       room := obj_delete (room (cD ex_room)) ''b''\<rparr>"
    by blast
  from e have 1: "snd (disconnect ex_room ''b'') =
     ([Emit (ToId (PStr ''a'')) ''chat message'' (PStr ''u2 has disconnected..''),
       Emit (ToId (PStr ''a'')) ''client-disconnected'' (PStr ''u2'')], None)"
    by (simp add: v)
  from e have "cD (fst (disconnect ex_room ''b'')) = removeUserFromMaps (cD ex_room) ''b''"
    by simp
  also have "\<dots> = \<lparr>connectionIndex = 2, nameIndex = 2, userName = [(''a'', Str ''u1'')],
      nickName = [(''a'', Null), (''b'', Null)], teamName = [(''a'', Null), (''b'', Null)],
      idm = [(''u1'', Str ''a'')], room = [(''a'', Str ''r'')], hostID = [(''r'', Str ''a'')]\<rparr>"
    unfolding x unfolding ex_room_value by (simp add: obj_eval)
  finally have 2: "cD (fst (disconnect ex_room ''b'')) =
     \<lparr>connectionIndex = 2, nameIndex = 2, userName = [(''a'', Str ''u1'')],
      nickName = [(''a'', Null), (''b'', Null)], teamName = [(''a'', Null), (''b'', Null)],
      idm = [(''u1'', Str ''a'')], room = [(''a'', Str ''r'')], hostID = [(''r'', Str ''a'')]\<rparr>" .
  from disconnect_reads_before_removal[of ex_room "''zz''" PNull 0 "cD ex_room"] g
  have 3: "disconnect ex_room ''zz'' = (ex_room, [], None)"
    by blast
  from disconnect_reads_before_removal[of ex_host_alone "''a''" PNull 40 "cD ex_host_alone"] ph
  have "handle ex_host_alone (LogoffTimerFires ''a'') =
        ((sock_put ex_host_alone ''a'' ((sock_of ex_host_alone ''a'')\<lparr>logoffTimer := None\<rparr>))
           \<lparr>cD := removeUserFromMaps (cD ex_host_alone) ''a''\<rparr>,
         [Emit (ToSocket ''a'') ''chat message''
            (PStr (''Idle for '' @ toFixed1 (idleTime_m (sock_of ex_host_alone ''a''))
               @ '' minutes. Network socket disconnected.''
               @ ''</br></br>Click <strong>Chat</strong> before disconnection for 40 minutes of network time.''
               @ ''</br></br>To <strong>reconnect:</strong> hosts click <strong>Create</strong>, clients click <strong>Connect</strong>.'')),
          SocketDisconnect ''a''],
         None)"
    by blast
  then have 4: "snd (handle ex_host_alone (LogoffTimerFires ''a'')) =
     ([Emit (ToSocket ''a'') ''chat message''
         (PStr (''Idle for 40.0 minutes. Network socket disconnected.''
            @ ''</br></br>Click <strong>Chat</strong> before disconnection for 40 minutes of network time.''
            @ ''</br></br>To <strong>reconnect:</strong> hosts click <strong>Create</strong>, clients click <strong>Connect</strong>.'')),
       SocketDisconnect ''a''], None)"
    by (simp add: vh)
  from 1 2 3 4 show ?thesis by blast
qed

end
